theory Spec2Isabelle
  imports Main "HOL-Library.AList" "HOL-Library.Log_Nat"
begin

section \<open>The prediction endpoint of \<open>api/index.py\<close>\<close>

text \<open>
  The module is one Flask handler, \<open>predict\<close>, with two helpers (\<open>allowed_file\<close>,
  \<open>resize_image\<close>). Everything else is a collaborator: the request (Flask), the
  sanitiser (Werkzeug), the image library (PIL), the classifier (Ultralytics) and the file
  system (\<open>os\<close>). The handler is embedded as a function from the request and the world
  (file system, plus the list of calls made to the classifier) to a response and the new
  world; the collaborators' behaviour during the request is a parameter. A Python exception
  is a value \<open>Exn s\<close>, where \<open>s\<close> is its string form \<open>str(e)\<close>; a step that can raise
  returns \<open>exn + 'a\<close>.

  Python strings are modelled as \<open>string\<close>, one \<open>char\<close> per character, so the model
  speaks about file names of 8-bit characters; characters from 128 on are "not ASCII".

  What the model leaves out: the calls to \<open>logging\<close>, which change nothing the handler
  reads; \<open>jsonify\<close>, whose argument is kept as the body; exceptions that are not
  instances of \<open>Exception\<close> (the \<open>except\<close> clause does not catch them); other requests
  running at the same time. A path of the file system holds a regular file or a directory;
  removing a regular file succeeds, removing a directory raises.
\<close>

subsection \<open>Python string primitives used by the module\<close>

text \<open>\<open>str.lower\<close> on one character: only \<open>A\<close>..\<open>Z\<close> change.\<close>

definition lower_char :: "char \<Rightarrow> char" where
  "lower_char c =
     (case map_of (zip ''ABCDEFGHIJKLMNOPQRSTUVWXYZ'' ''abcdefghijklmnopqrstuvwxyz'') c of
        Some l \<Rightarrow> l
      | None \<Rightarrow> c)"

definition py_lower :: "string \<Rightarrow> string" where
  "py_lower s = map lower_char s"

text \<open>
  \<open>s.rsplit(sep, 1)\<close> for a one-character separator: the string is cut at its last
  separator; without a separator the result is the one-element list \<open>[s]\<close>.
\<close>

definition py_rsplit1 :: "char \<Rightarrow> string \<Rightarrow> string list" where
  "py_rsplit1 sep s =
     (if sep \<in> set s
      then [rev (drop 1 (dropWhile (\<lambda>c. c \<noteq> sep) (rev s))),
            rev (takeWhile (\<lambda>c. c \<noteq> sep) (rev s))]
      else [s])"

text \<open>
  \<open>str(i)\<close> for a natural number: its decimal digits. \<open>digit_char\<close> is applied to
  numbers below 10 only.
\<close>

definition digit_char :: "nat \<Rightarrow> char" where
  "digit_char d = ''0123456789'' ! d"

fun str_nat :: "nat \<Rightarrow> string" where
  "str_nat n = (if n < 10 then [digit_char n] else str_nat (n div 10) @ [digit_char (n mod 10)])"

declare str_nat.simps [simp del]

text \<open>
  The characters \<open>str.split()\<close> treats as white space, among the ASCII ones: tab, line
  feed, vertical tab, form feed, carriage return, the four separators 28..31 and the space.
\<close>

definition is_space :: "char \<Rightarrow> bool" where
  "is_space c \<longleftrightarrow>
     c \<in> set [CHR 0x09, CHR 0x0A, CHR 0x0B, CHR 0x0C, CHR 0x0D,
               CHR 0x1C, CHR 0x1D, CHR 0x1E, CHR 0x1F, CHR 0x20]"

text \<open>
  \<open>s.split()\<close>: the maximal runs of characters that are not white space. \<open>cur\<close> is the
  run being read.
\<close>

fun split_from :: "string \<Rightarrow> string \<Rightarrow> string list" where
  "split_from cur [] = (if cur = [] then [] else [cur])"
| "split_from cur (c # cs) =
     (if is_space c then (if cur = [] then split_from [] cs else cur # split_from [] cs)
      else split_from (cur @ [c]) cs)"

definition py_split :: "string \<Rightarrow> string list" where
  "py_split s = split_from [] s"

text \<open>\<open>sep.join(words)\<close>.\<close>

fun py_join :: "string \<Rightarrow> string list \<Rightarrow> string" where
  "py_join sep [] = []"
| "py_join sep [w] = w"
| "py_join sep (w # v # ws) = w @ sep @ py_join sep (v # ws)"

text \<open>\<open>s.strip(chars)\<close>: leading and trailing characters of the set \<open>chars\<close> go.\<close>

definition py_strip :: "string \<Rightarrow> string \<Rightarrow> string" where
  "py_strip chars s =
     rev (dropWhile (\<lambda>c. c \<in> set chars) (rev (dropWhile (\<lambda>c. c \<in> set chars) s)))"

text \<open>\<open>s.replace(a, b)\<close> for one-character \<open>a\<close> and \<open>b\<close>.\<close>

definition py_replace :: "char \<Rightarrow> char \<Rightarrow> string \<Rightarrow> string" where
  "py_replace a b s = map (\<lambda>c. if c = a then b else c) s"

subsection \<open>Validation: \<open>allowed_file\<close>\<close>

definition ALLOWED_EXTENSIONS :: "string set" where
  "ALLOWED_EXTENSIONS = {''png'', ''jpg'', ''jpeg''}"

text \<open>
  \<open>'.' in filename and filename.rsplit('.', 1)[1].lower() in ALLOWED_EXTENSIONS\<close>. The
  index 1 is read only behind the test for a dot, where the list has two elements.
\<close>

definition allowed_file :: "string \<Rightarrow> bool" where
  "allowed_file filename =
     (CHR ''.'' \<in> set filename \<and>
      py_lower (py_rsplit1 (CHR ''.'') filename ! 1) \<in> ALLOWED_EXTENSIONS)"

text \<open>
  The specification's wording of the same test: the name is a stem, a dot and an extension
  without a dot, and the extension is one of the three up to the case of its letters.
\<close>

definition has_allowed_extension :: "string \<Rightarrow> bool" where
  "has_allowed_extension filename =
     (\<exists>stem ext. filename = stem @ ''.'' @ ext \<and> CHR ''.'' \<notin> set ext \<and>
        (\<exists>a \<in> ALLOWED_EXTENSIONS. py_lower ext = py_lower a))"

subsection \<open>Sanitising the name and computing the destination\<close>

text \<open>
  Modelled from the spec: \<open>secure_filename\<close> is Werkzeug's and is not part of the
  repository's source; the specification says that it removes path-traversal and unsafe
  characters. The model follows the library on a POSIX host, step by step:
  the name is reduced to its ASCII characters; the path separator \<open>/\<close> becomes a space;
  the name is split at white space and joined with \<open>_\<close>; every character outside
  \<open>A-Za-z0-9_.-\<close> is deleted; leading and trailing dots and underscores are stripped.
  (The library first normalises Unicode, which can turn one character into several ASCII
  ones; on 8-bit characters the reduction is the deletion of everything from 128 on.)
\<close>

definition safe_chars :: string where
  "safe_chars =
     ''ABCDEFGHIJKLMNOPQRSTUVWXYZabcdefghijklmnopqrstuvwxyz0123456789_.-''"

definition secure_filename :: "string \<Rightarrow> string" where
  "secure_filename filename =
     (let ascii = filter (\<lambda>c. (of_char c :: nat) < 128) filename;
          spaced = py_replace (CHR ''/'') (CHR '' '') ascii;
          joined = py_join ''_'' (py_split spaced);
          kept = filter (\<lambda>c. c \<in> set safe_chars) joined
      in py_strip ''._'' kept)"

text \<open>
  \<open>os.path.join(a, b)\<close> on a POSIX host: an absolute \<open>b\<close> replaces \<open>a\<close>; otherwise
  the two are joined by one \<open>/\<close>, which is omitted when \<open>a\<close> is empty or ends in one.
\<close>

definition os_path_join :: "string \<Rightarrow> string \<Rightarrow> string" where
  "os_path_join a b =
     (if b \<noteq> [] \<and> hd b = CHR ''/'' then b
      else if a = [] \<or> last a = CHR ''/'' then a @ b
      else a @ ''/'' @ b)"

text \<open>
  \<open>UPLOADS_DIR = os.path.join(os.getcwd(), "uploads")\<close>, computed once at start-up; the
  working directory is a parameter.
\<close>

definition UPLOADS_DIR :: "string \<Rightarrow> string" where
  "UPLOADS_DIR cwd = os_path_join cwd ''uploads''"

text \<open>
  A path lies inside a directory when it is the directory, one \<open>/\<close> and one component
  that is not empty, has no \<open>/\<close> and is neither \<open>.\<close> nor \<open>..\<close>.
\<close>

definition inside_dir :: "string \<Rightarrow> string \<Rightarrow> bool" where
  "inside_dir dir p =
     (let n = length dir + 1; name = drop n p
      in take n p = dir @ ''/'' \<and> name \<noteq> [] \<and> CHR ''/'' \<notin> set name \<and>
         name \<noteq> ''.'' \<and> name \<noteq> ''..'')"

subsection \<open>Floating-point numbers and their formatting\<close>

text \<open>
  The classifier's probabilities reach the handler as a NumPy array of floating-point
  numbers. A finite floating-point number is modelled by the rational number it denotes;
  infinities and NaN are not modelled. \<open>prob * 100\<close> is a floating-point product: the
  exact product rounded to the nearest number with \<open>p\<close> significant bits, ties to the even
  one (\<open>float_round\<close>; the exponent range is not bounded). NumPy evaluates the product in
  binary32 or in binary64, depending on the array's element type and on its promotion rules
  for the Python integer 100, so the format is a parameter.
\<close>

datatype float_format = Binary32 | Binary64

fun mantissa_bits :: "float_format \<Rightarrow> nat" where
  "mantissa_bits Binary32 = 24"
| "mantissa_bits Binary64 = 53"

definition pow2 :: "int \<Rightarrow> rat" where
  "pow2 e = (if 0 \<le> e then 2 ^ nat e else 1 / 2 ^ nat (- e))"

text \<open>Rounding to the nearest integer, a tie going to the even neighbour.\<close>

definition round_half_even :: "rat \<Rightarrow> int" where
  "round_half_even x =
     (let f = \<lfloor>x\<rfloor>; d = x - of_int f
      in if d < 1 / 2 then f else if 1 / 2 < d then f + 1 else if even f then f else f + 1)"

text \<open>For \<open>x > 0\<close>, the integer \<open>e\<close> with \<open>2\<^sup>e \<le> x < 2\<^sup>e\<^sup>+\<^sup>1\<close>.\<close>

definition floor_log2 :: "rat \<Rightarrow> int" where
  "floor_log2 x =
     (let (a, b) = quotient_of x; k = bitlen a - bitlen b
      in if pow2 k \<le> x then k else k - 1)"

definition float_round :: "nat \<Rightarrow> rat \<Rightarrow> rat" where
  "float_round p x =
     (if x = 0 then 0
      else let ulp = pow2 (floor_log2 \<bar>x\<bar> - int p + 1)
           in of_int (round_half_even (x / ulp)) * ulp)"

definition float_mul :: "float_format \<Rightarrow> rat \<Rightarrow> rat \<Rightarrow> rat" where
  "float_mul f x y = float_round (mantissa_bits f) (x * y)"

text \<open>
  \<open>f"{x:.2f}"\<close>: the number correctly rounded to a multiple of one hundredth (ties to
  even), written with its sign, its integer digits, a point and two decimals.
  \<open>hundredths\<close> is the rounded magnitude in hundredths.
\<close>

definition hundredths :: "rat \<Rightarrow> nat" where
  "hundredths x = nat (round_half_even (\<bar>x\<bar> * 100))"

definition format_2f :: "rat \<Rightarrow> string" where
  "format_2f x =
     (let n = hundredths x;
          s = str_nat (n div 100) @ ''.'' @ [digit_char (n mod 100 div 10), digit_char (n mod 10)]
      in if x < 0 then ''-'' @ s else s)"

text \<open>\<open>f"{prob * 100:.2f}%"\<close>, and the number in hundredths of a percent that it shows.\<close>

definition format_percent :: "float_format \<Rightarrow> rat \<Rightarrow> string" where
  "format_percent f prob = format_2f (float_mul f prob 100) @ ''%''"

definition percent_hundredths :: "float_format \<Rightarrow> rat \<Rightarrow> nat" where
  "percent_hundredths f prob = hundredths (float_mul f prob 100)"

subsection \<open>Labels and the predictions dictionary\<close>

definition label_names :: "nat \<rightharpoonup> string" where
  "label_names =
     map_of [(0, ''Anger and aggression''), (1, ''Anxiety''), (2, ''Happy''), (3, ''Sad'')]"

text \<open>\<open>label_names.get(i, f'Class {i}')\<close>.\<close>

definition label_of :: "nat \<Rightarrow> string" where
  "label_of i = (case label_names i of Some l \<Rightarrow> l | None \<Rightarrow> ''Class '' @ str_nat i)"

text \<open>
  The dictionary comprehension over \<open>enumerate(probs)\<close>. A Python dictionary keeps its
  keys in the order of their first insertion and a repeated key overwrites the value: an
  association list with \<open>AList.update\<close>.
\<close>

definition predictions_of :: "float_format \<Rightarrow> rat list \<Rightarrow> (string \<times> string) list" where
  "predictions_of f probs =
     fold (\<lambda>(i, prob). AList.update (label_of i) (format_percent f prob)) (enumerate 0 probs) []"

subsection \<open>The world and the collaborators\<close>

text \<open>An exception, by its string form.\<close>

datatype exn = Exn string

fun str_of :: "exn \<Rightarrow> string" where
  "str_of (Exn s) = s"

text \<open>
  A file is what PIL makes of its bytes: an image of a width and a height, or bytes that
  \<open>Image.open\<close> rejects with the given message.
\<close>

datatype filedata = ImageFile nat nat | NotAnImage string

text \<open>What a path of the file system holds: a regular file or a directory.\<close>

datatype node = File filedata | Directory

text \<open>
  The outcome of a write to the destination, as it happened. \<open>Written\<close>: the call
  returned, and the destination holds what was written, as a regular file (a write that
  finds a directory at the destination does not return). \<open>WriteFails m left\<close>: the call
  raised an exception of string form \<open>m\<close>, and \<open>left\<close> is what the destination holds
  afterwards. After a failed \<open>file.save\<close> that is nothing, a regular file (a partial or an
  old one) or the directory that made the write fail; \<open>img.save\<close> writes over the regular
  file that \<open>file.save\<close> has just put there, and leaves a regular file or nothing.
\<close>

datatype 'a write_outcome = Written | WriteFails string "'a option"

text \<open>
  What \<open>model.predict\<close> returns. Only the shape that the handler inspects is kept: whether
  the value is a list, and for an element whether it has an attribute \<open>probs\<close>, whether that
  is \<open>None\<close>, and what \<open>probs.data.numpy()\<close> gives (a vector, or an exception).
\<close>

datatype result = NoProbs | ProbsNone | Probs "exn + rat list"

datatype results = NotList | PyList "result list"

text \<open>
  An uploaded part (\<open>FileStorage\<close>): its client-supplied name, which can be absent, and
  its content. The request is reduced to \<open>request.files\<close>.
\<close>

record upload =
  filename :: "string option"
  content :: filedata

record request =
  files :: "string \<rightharpoonup> upload"

text \<open>
  The world: the file system, and the calls made to the classifier so far, each with the
  path it was given and the regular file that was there.
\<close>

record world =
  fs :: "string \<rightharpoonup> node"
  model_calls :: "(string \<times> filedata option) list"

text \<open>
  The collaborators during one request: the working directory at start-up, the outcome of
  \<open>file.save\<close>, the outcome of resizing and saving in \<open>resize_image\<close>, the classifier as a
  function of the file it finds, and the format of the product \<open>prob * 100\<close>.
\<close>

record collaborators =
  cwd :: string
  file_save :: "node write_outcome"
  img_save :: "filedata write_outcome"
  model_predict :: "filedata option \<Rightarrow> exn + results"
  float_fmt :: float_format

datatype body = Predictions "(string \<times> string) list" | ErrorBody string

type_synonym response = "body \<times> nat"

subsection \<open>The steps of the handler\<close>

text \<open>
  The string forms of the \<open>FileNotFoundError\<close> that \<open>os\<close> and PIL raise for a path with
  no file, and of the \<open>IsADirectoryError\<close> that they raise for a directory (the path is
  shown between quotes).
\<close>

definition no_such_file :: "string \<Rightarrow> string" where
  "no_such_file p = ''[Errno 2] No such file or directory: '' @ [CHR 0x27] @ p @ [CHR 0x27]"

definition is_a_directory :: "string \<Rightarrow> string" where
  "is_a_directory p = ''[Errno 21] Is a directory: '' @ [CHR 0x27] @ p @ [CHR 0x27]"

text \<open>The regular file at a path, if there is one.\<close>

definition file_at :: "world \<Rightarrow> string \<Rightarrow> filedata option" where
  "file_at w p = (case fs w p of Some (File d) \<Rightarrow> Some d | _ \<Rightarrow> None)"

text \<open>\<open>file.save(filepath)\<close>: the upload's content is written to the path, or the write fails.\<close>

definition FileStorage_save ::
  "collaborators \<Rightarrow> upload \<Rightarrow> string \<Rightarrow> world \<Rightarrow> (exn + unit) \<times> world" where
  "FileStorage_save c file filepath w =
     (case file_save c of
        Written \<Rightarrow> (Inr (), w\<lparr>fs := (fs w)(filepath \<mapsto> File (content file))\<rparr>)
      | WriteFails m left \<Rightarrow> (Inl (Exn m), w\<lparr>fs := (fs w)(filepath := left)\<rparr>))"

text \<open>\<open>Image.open(filepath)\<close>, reduced to the size of the image it yields.\<close>

definition Image_open :: "string \<Rightarrow> world \<Rightarrow> exn + nat \<times> nat" where
  "Image_open filepath w =
     (case fs w filepath of
        None \<Rightarrow> Inl (Exn (no_such_file filepath))
      | Some Directory \<Rightarrow> Inl (Exn (is_a_directory filepath))
      | Some (File (NotAnImage m)) \<Rightarrow> Inl (Exn m)
      | Some (File (ImageFile iw ih)) \<Rightarrow> Inr (iw, ih))"

text \<open>
  \<open>resize_image(filepath, target_size)\<close>: the image is opened, resized to the target size
  and saved over the file; any exception is raised again as a \<open>RuntimeError\<close> whose string
  form is prefixed.
\<close>

definition resize_image ::
  "collaborators \<Rightarrow> string \<Rightarrow> nat \<times> nat \<Rightarrow> world \<Rightarrow> (exn + unit) \<times> world" where
  "resize_image c filepath target_size w =
     (case (case Image_open filepath w of
              Inl e \<Rightarrow> (Inl e, w)
            | Inr _ \<Rightarrow>
                (case img_save c of
                   Written \<Rightarrow>
                     (Inr (),
                      w\<lparr>fs := (fs w)(filepath \<mapsto>
                              File (ImageFile (fst target_size) (snd target_size)))\<rparr>)
                 | WriteFails m left \<Rightarrow>
                     (Inl (Exn m), w\<lparr>fs := (fs w)(filepath := map_option File left)\<rparr>))) of
        (Inl e, w') \<Rightarrow> (Inl (Exn (''Error resizing image: '' @ str_of e)), w')
      | (Inr u, w') \<Rightarrow> (Inr u, w'))"

text \<open>
  \<open>model.predict(source=filepath, show=False)\<close>: the classifier answers for the regular
  file it finds at the path; the call is recorded.
\<close>

definition call_model :: "collaborators \<Rightarrow> string \<Rightarrow> world \<Rightarrow> (exn + results) \<times> world" where
  "call_model c filepath w =
     (model_predict c (file_at w filepath),
      w\<lparr>model_calls := model_calls w @ [(filepath, file_at w filepath)]\<rparr>)"

text \<open>
  \<open>os.remove\<close>: a regular file is removed; a missing path and a directory raise.
  \<open>os.path.exists\<close> is true of files and of directories.
\<close>

definition os_remove :: "string \<Rightarrow> world \<Rightarrow> (exn + unit) \<times> world" where
  "os_remove filepath w =
     (case fs w filepath of
        None \<Rightarrow> (Inl (Exn (no_such_file filepath)), w)
      | Some Directory \<Rightarrow> (Inl (Exn (is_a_directory filepath)), w)
      | Some (File d) \<Rightarrow> (Inr (), w\<lparr>fs := (fs w)(filepath := None)\<rparr>))"

definition os_path_exists :: "string \<Rightarrow> world \<Rightarrow> bool" where
  "os_path_exists filepath w \<longleftrightarrow> fs w filepath \<noteq> None"

text \<open>
  Lines 84 to 90: the test \<open>isinstance(results, list) and hasattr(results[0], 'probs') and
  results[0].probs is not None\<close> and its two branches. \<open>results[0]\<close> on an empty list raises
  \<open>IndexError\<close>.
\<close>

fun format_results :: "float_format \<Rightarrow> results \<Rightarrow> exn + response" where
  "format_results f NotList = Inr (ErrorBody ''Unable to process the image'', 500)"
| "format_results f (PyList []) = Inl (Exn ''list index out of range'')"
| "format_results f (PyList (NoProbs # rs)) = Inr (ErrorBody ''Unable to process the image'', 500)"
| "format_results f (PyList (ProbsNone # rs)) = Inr (ErrorBody ''Unable to process the image'', 500)"
| "format_results f (PyList (Probs (Inl e) # rs)) = Inl e"
| "format_results f (PyList (Probs (Inr probs) # rs)) =
     Inr (Predictions (predictions_of f probs), 200)"

text \<open>The body of the \<open>try\<close> statement, lines 66 to 90; \<open>(224, 224)\<close> is the default target size.\<close>

definition try_block ::
  "collaborators \<Rightarrow> upload \<Rightarrow> string \<Rightarrow> world \<Rightarrow> (exn + response) \<times> world" where
  "try_block c file filepath w =
     (case FileStorage_save c file filepath w of
        (Inl e, w1) \<Rightarrow> (Inl e, w1)
      | (Inr _, w1) \<Rightarrow>
     (case Image_open filepath w1 of
        Inl e \<Rightarrow> (Inl e, w1)
      | Inr _ \<Rightarrow>
     (case resize_image c filepath (224, 224) w1 of
        (Inl e, w2) \<Rightarrow> (Inl e, w2)
      | (Inr _, w2) \<Rightarrow>
     (case call_model c filepath w2 of
        (Inl e, w3) \<Rightarrow> (Inl e, w3)
      | (Inr results, w3) \<Rightarrow>
     (case os_remove filepath w3 of
        (Inl e, w4) \<Rightarrow> (Inl e, w4)
      | (Inr _, w4) \<Rightarrow> (format_results (float_fmt c) results, w4))))))"

text \<open>
  The \<open>except Exception as e\<close> clause, lines 92 to 97. Nothing catches an exception of the
  \<open>os.remove\<close> of line 96: it leaves the handler.
\<close>

definition except_block :: "exn \<Rightarrow> string \<Rightarrow> world \<Rightarrow> (exn + response) \<times> world" where
  "except_block e filepath w =
     (if os_path_exists filepath w
      then (case os_remove filepath w of
              (Inl e', w') \<Rightarrow> (Inl e', w')
            | (Inr _, w') \<Rightarrow>
                (Inr (ErrorBody (''Error during prediction: '' @ str_of e), 500), w'))
      else (Inr (ErrorBody (''Error during prediction: '' @ str_of e), 500), w))"

text \<open>The path that the handler computes for a client-supplied name, lines 62 and 63.\<close>

definition destination :: "collaborators \<Rightarrow> string \<Rightarrow> string" where
  "destination c name = os_path_join (UPLOADS_DIR (cwd c)) (secure_filename name)"

text \<open>
  The handler. \<open>Inl\<close> is an exception that leaves it, \<open>Inr\<close> the response: a body and a
  status. A \<open>FileStorage\<close> is true when its name is neither absent nor empty.
\<close>

definition predict :: "collaborators \<Rightarrow> request \<Rightarrow> world \<Rightarrow> (exn + response) \<times> world" where
  "predict c req w =
     (case files req ''image'' of
        None \<Rightarrow> (Inr (ErrorBody ''No image file provided'', 400), w)
      | Some file \<Rightarrow>
          (case filename file of
             None \<Rightarrow>
               (Inr (ErrorBody ''Invalid file format. Allowed formats: png, jpg, jpeg'', 400), w)
           | Some name \<Rightarrow>
               if \<not> (name \<noteq> [] \<and> allowed_file name)
               then (Inr (ErrorBody ''Invalid file format. Allowed formats: png, jpg, jpeg'', 400),
                     w)
               else
                 (let filepath = destination c name
                  in case try_block c file filepath w of
                       (Inr resp, w') \<Rightarrow> (Inr resp, w')
                     | (Inl e, w') \<Rightarrow> except_block e filepath w')))"

text \<open>
  The specification's condition for step 6, "the first result's probability vector" is
  present: the value is a list, it has a first element, and that element has an attribute
  \<open>probs\<close> that is not \<open>None\<close>.
\<close>

fun has_first_probs :: "results \<Rightarrow> bool" where
  "has_first_probs (PyList (Probs p # rs)) = True"
| "has_first_probs r = False"

subsection \<open>Scenarios\<close>

text \<open>
  A start-up directory, a world with no file, a request with one part named \<open>image\<close>, and
  collaborators that all succeed around a given classifier.
\<close>

definition empty_world :: world where
  "empty_world = \<lparr>fs = Map.empty, model_calls = []\<rparr>"

definition upload_request :: "string \<Rightarrow> filedata \<Rightarrow> request" where
  "upload_request name data = \<lparr>files = [''image'' \<mapsto> \<lparr>filename = Some name, content = data\<rparr>]\<rparr>"

definition mock_collaborators :: "(filedata option \<Rightarrow> exn + results) \<Rightarrow> collaborators" where
  "mock_collaborators m =
     \<lparr>cwd = ''/srv/app'', file_save = Written, img_save = Written, model_predict = m,
      float_fmt = Binary32\<rparr>"

text \<open>
  A world in which the destination of \<open>happy.jpg\<close> is a directory, and collaborators
  whose \<open>file.save\<close> fails on it and leaves it there.
\<close>

definition blocked_world :: world where
  "blocked_world = \<lparr>fs = [''/srv/app/uploads/happy.jpg'' \<mapsto> Directory], model_calls = []\<rparr>"

definition save_on_directory :: collaborators where
  "save_on_directory =
     (mock_collaborators (\<lambda>f. Inr NotList))
       \<lparr>file_save := WriteFails (is_a_directory ''/srv/app/uploads/happy.jpg'') (Some Directory)\<rparr>"

text \<open>
  Collaborators whose \<open>img.save\<close> raises PIL's \<open>ValueError\<close> for a path without extension
  and leaves the file of 640 by 480 as it was.
\<close>

definition save_without_extension :: collaborators where
  "save_without_extension =
     (mock_collaborators (\<lambda>f. Inr NotList))
       \<lparr>img_save := WriteFails ''unknown file extension: '' (Some (ImageFile 640 480))\<rparr>"

text \<open>
  Collaborators whose \<open>img.save\<close> raises PIL's \<open>OSError\<close> for an image with an alpha
  channel that is to be written as JPEG, and leaves the file truncated.
\<close>

definition save_rgba_as_jpeg :: collaborators where
  "save_rgba_as_jpeg =
     (mock_collaborators (\<lambda>f. Inr NotList))
       \<lparr>img_save := WriteFails ''cannot write mode RGBA as JPEG''
                    (Some (NotAnImage ''cannot identify image file''))\<rparr>"


section \<open>Properties\<close>

subsection \<open>The extension test\<close>

lemma py_lower_allowed: "a \<in> ALLOWED_EXTENSIONS \<Longrightarrow> py_lower a = a"
  by (auto simp: ALLOWED_EXTENSIONS_def py_lower_def lower_char_def)

lemma rsplit_parts:
  assumes "sep \<in> set s"
  shows "s = rev (drop 1 (dropWhile (\<lambda>c. c \<noteq> sep) (rev s))) @ [sep]
             @ rev (takeWhile (\<lambda>c. c \<noteq> sep) (rev s))"
proof -
  let ?P = "\<lambda>c. c \<noteq> sep"
  from assms have "\<exists>x \<in> set (rev s). \<not> ?P x" by simp
  then have ne: "dropWhile ?P (rev s) \<noteq> []" by (simp add: dropWhile_eq_Nil_conv)
  then have "hd (dropWhile ?P (rev s)) = sep" using hd_dropWhile [of ?P "rev s"] by simp
  with ne have dw: "dropWhile ?P (rev s) = sep # drop 1 (dropWhile ?P (rev s))"
    by (cases "dropWhile ?P (rev s)") simp_all
  have "rev s = takeWhile ?P (rev s) @ dropWhile ?P (rev s)" by simp
  then have "rev s = takeWhile ?P (rev s) @ sep # drop 1 (dropWhile ?P (rev s))"
    using dw by simp
  then have "rev (rev s) = rev (takeWhile ?P (rev s) @ sep # drop 1 (dropWhile ?P (rev s)))"
    by (rule arg_cong)
  then show ?thesis by simp
qed

lemma rsplit_ext_of_parts:
  assumes "sep \<notin> set ext"
  shows "rev (takeWhile (\<lambda>c. c \<noteq> sep) (rev (stem @ [sep] @ ext))) = ext"
proof -
  have "takeWhile (\<lambda>c. c \<noteq> sep) (rev ext @ sep # rev stem) = rev ext"
    using assms by (auto simp: takeWhile_tail)
  then show ?thesis by simp
qed

text \<open>The test of the source decides exactly what the specification describes.\<close>

lemma allowed_file_iff: "allowed_file name \<longleftrightarrow> has_allowed_extension name"
proof
  assume a: "allowed_file name"
  then have dot: "CHR ''.'' \<in> set name"
    and ext: "py_lower (rev (takeWhile (\<lambda>c. c \<noteq> CHR ''.'') (rev name))) \<in> ALLOWED_EXTENSIONS"
    by (auto simp: allowed_file_def py_rsplit1_def)
  let ?ext = "rev (takeWhile (\<lambda>c. c \<noteq> CHR ''.'') (rev name))"
  let ?stem = "rev (drop 1 (dropWhile (\<lambda>c. c \<noteq> CHR ''.'') (rev name)))"
  have "name = ?stem @ ''.'' @ ?ext" using rsplit_parts [OF dot] by simp
  moreover have "CHR ''.'' \<notin> set ?ext" by (auto dest: set_takeWhileD)
  moreover have "\<exists>a \<in> ALLOWED_EXTENSIONS. py_lower ?ext = py_lower a"
    using ext py_lower_allowed by (intro bexI [of _ "py_lower ?ext"]) auto
  ultimately show "has_allowed_extension name"
    unfolding has_allowed_extension_def by blast
next
  assume "has_allowed_extension name"
  then obtain stem ext a where n: "name = stem @ ''.'' @ ext" and nd: "CHR ''.'' \<notin> set ext"
    and a: "a \<in> ALLOWED_EXTENSIONS" and l: "py_lower ext = py_lower a"
    unfolding has_allowed_extension_def by blast
  have "rev (takeWhile (\<lambda>c. c \<noteq> CHR ''.'') (rev name)) = ext"
    using rsplit_ext_of_parts [OF nd, of stem] n by simp
  moreover have "CHR ''.'' \<in> set name" using n by simp
  ultimately show "allowed_file name"
    using a l py_lower_allowed [OF a] by (simp add: allowed_file_def py_rsplit1_def)
qed

lemma not_allowed_notes: "\<not> allowed_file ''notes.txt''"
  by (simp add: allowed_file_def py_rsplit1_def py_lower_def lower_char_def ALLOWED_EXTENSIONS_def)

subsection \<open>Requests that are refused\<close>

text \<open>
  C4. A request whose form data has no file part named \<open>image\<close> is answered with status 400
  and the error body \<open>No image file provided\<close>, and the world, hence the uploads directory,
  is left as it was: no file is created.
\<close>

theorem missing_image_400:
  assumes "files req ''image'' = None"
  shows "predict c req w = (Inr (ErrorBody ''No image file provided'', 400), w)"
  using assms by (simp add: predict_def)

theorem missing_image_400_witness:
  "files \<lparr>files = Map.empty\<rparr> ''image'' = None \<and>
   predict (mock_collaborators (\<lambda>f. Inr NotList)) \<lparr>files = Map.empty\<rparr> empty_world
     = (Inr (ErrorBody ''No image file provided'', 400), empty_world)"
  using missing_image_400
    [of "\<lparr>files = Map.empty\<rparr>" "mock_collaborators (\<lambda>f. Inr NotList)" empty_world]
  by simp

text \<open>
  C5. An upload whose name has no extension among png, jpg and jpeg, the case of the letters
  set aside (a name without any dot included), is answered with status 400 and the body
  \<open>Invalid file format. Allowed formats: png, jpg, jpeg\<close>, and nothing is written: the
  world is left as it was.
\<close>

theorem invalid_extension_400:
  assumes "files req ''image'' = Some file" and "filename file = Some name"
    and "\<not> has_allowed_extension name"
  shows "predict c req w =
    (Inr (ErrorBody ''Invalid file format. Allowed formats: png, jpg, jpeg'', 400), w)"
  using assms by (simp add: predict_def allowed_file_iff)

theorem invalid_extension_400_witness:
  "files (upload_request ''notes.txt'' (NotAnImage ''cannot identify image file'')) ''image''
     = Some \<lparr>filename = Some ''notes.txt'', content = NotAnImage ''cannot identify image file''\<rparr> \<and>
   \<not> has_allowed_extension ''notes.txt'' \<and>
   predict (mock_collaborators (\<lambda>f. Inr NotList))
     (upload_request ''notes.txt'' (NotAnImage ''cannot identify image file'')) empty_world
     = (Inr (ErrorBody ''Invalid file format. Allowed formats: png, jpg, jpeg'', 400), empty_world)"
proof -
  have f: "files (upload_request ''notes.txt'' (NotAnImage ''cannot identify image file'')) ''image''
     = Some \<lparr>filename = Some ''notes.txt'', content = NotAnImage ''cannot identify image file''\<rparr>"
    by (simp add: upload_request_def)
  have n: "\<not> has_allowed_extension ''notes.txt''"
    using not_allowed_notes by (simp add: allowed_file_iff)
  show ?thesis
    using f n
      invalid_extension_400 [OF f _ n, of "mock_collaborators (\<lambda>f. Inr NotList)" empty_world]
    by simp
qed

lemma format_results_status:
  "format_results f r = Inr (b, st) \<Longrightarrow> st = 500 \<or> st = 200"
  by (induction f r rule: format_results.induct) auto

lemma try_block_status:
  "try_block c part p w = (Inr (b, st), w') \<Longrightarrow> st = 500 \<or> st = 200"
  unfolding try_block_def
  by (auto split: prod.splits sum.splits dest: format_results_status)

lemma except_block_status:
  "except_block e p w = (Inr (b, st), w') \<Longrightarrow> st = 500"
  unfolding except_block_def
  by (auto split: prod.splits sum.splits if_splits)

text \<open>The missing-input response is given exactly when the part is absent.\<close>

lemma missing_input_iff:
  "fst (predict c req w) = Inr (ErrorBody ''No image file provided'', 400)
     \<longleftrightarrow> files req ''image'' = None"
proof
  assume "files req ''image'' = None"
  then show "fst (predict c req w) = Inr (ErrorBody ''No image file provided'', 400)"
    by (simp add: predict_def)
next
  assume a: "fst (predict c req w) = Inr (ErrorBody ''No image file provided'', 400)"
  show "files req ''image'' = None"
  proof (rule ccontr)
    assume "files req ''image'' \<noteq> None"
    then obtain part where f: "files req ''image'' = Some part" by auto
    show False
    proof (cases "filename part")
      case None
      with f a show False by (simp add: predict_def)
    next
      case (Some name)
      show False
      proof (cases "name \<noteq> [] \<and> allowed_file name")
        case False
        with f Some a show False by (auto simp add: predict_def)
      next
        case True
        obtain r w' where t: "try_block c part (destination c name) w = (r, w')"
          by (cases "try_block c part (destination c name) w")
        show False
        proof (cases r)
          case (Inr resp)
          with t f Some True a have "resp = (ErrorBody ''No image file provided'', 400)"
            by (simp add: predict_def)
          with t Inr try_block_status show False by fastforce
        next
          case (Inl e)
          with t f Some True a
          have "fst (except_block e (destination c name) w') =
                  Inr (ErrorBody ''No image file provided'', 400)"
            by (simp add: predict_def)
          then show False
            using except_block_status [of e "destination c name" w']
            by (cases "except_block e (destination c name) w'") fastforce
        qed
      qed
    qed
  qed
qed

text \<open>
  C10. A request with a part named \<open>image\<close> whose name is the empty string gets the
  invalid-format response with status 400 and the world unchanged, not the missing-input
  response: for every request, the missing-input response is given exactly when the part
  is absent.
\<close>

theorem empty_filename_is_invalid_format:
  assumes "files req ''image'' = Some file" and "filename file = Some []"
  shows "predict c req w =
           (Inr (ErrorBody ''Invalid file format. Allowed formats: png, jpg, jpeg'', 400), w) \<and>
         (\<forall>r. fst (predict c r w) = Inr (ErrorBody ''No image file provided'', 400)
                \<longleftrightarrow> files r ''image'' = None)"
proof
  show "predict c req w =
          (Inr (ErrorBody ''Invalid file format. Allowed formats: png, jpg, jpeg'', 400), w)"
    using assms by (simp add: predict_def)
  show "\<forall>r. fst (predict c r w) = Inr (ErrorBody ''No image file provided'', 400)
              \<longleftrightarrow> files r ''image'' = None"
    by (simp add: missing_input_iff)
qed

theorem empty_filename_is_invalid_format_witness:
  "files (upload_request [] (ImageFile 640 480)) ''image''
     = Some \<lparr>filename = Some [], content = ImageFile 640 480\<rparr> \<and>
   predict (mock_collaborators (\<lambda>f. Inr NotList)) (upload_request [] (ImageFile 640 480))
       empty_world
     = (Inr (ErrorBody ''Invalid file format. Allowed formats: png, jpg, jpeg'', 400),
        empty_world) \<and>
   fst (predict (mock_collaborators (\<lambda>f. Inr NotList)) (upload_request [] (ImageFile 640 480))
       empty_world) \<noteq> Inr (ErrorBody ''No image file provided'', 400)"
proof -
  have f: "files (upload_request [] (ImageFile 640 480)) ''image''
     = Some \<lparr>filename = Some [], content = ImageFile 640 480\<rparr>"
    by (simp add: upload_request_def)
  show ?thesis
    using f
      empty_filename_is_invalid_format
        [OF f, of "mock_collaborators (\<lambda>f. Inr NotList)" empty_world]
    by simp
qed

subsection \<open>The pipeline, step by step\<close>

text \<open>
  The \<open>except\<close> clause answers when the destination holds no directory: a regular file is
  removed, a missing one is left alone. On a directory its \<open>os.remove\<close> raises, and that
  exception leaves the handler.
\<close>

lemma world_fs_same: "fs w p = None \<Longrightarrow> w\<lparr>fs := (fs w)(p := None)\<rparr> = w"
  by (simp add: fun_upd_idem)

lemma except_block_removable:
  assumes "fs w p \<noteq> Some Directory"
  shows "except_block e p w =
     (Inr (ErrorBody (''Error during prediction: '' @ str_of e), 500),
      w\<lparr>fs := (fs w)(p := None)\<rparr>)"
proof (cases "fs w p")
  case None
  then show ?thesis by (simp add: except_block_def os_path_exists_def world_fs_same)
next
  case (Some n)
  with assms obtain d where "n = File d" by (cases n) auto
  with Some show ?thesis by (simp add: except_block_def os_path_exists_def os_remove_def)
qed

lemma except_block_directory:
  assumes "fs w p = Some Directory"
  shows "except_block e p w = (Inl (Exn (is_a_directory p)), w)"
  using assms by (simp add: except_block_def os_path_exists_def os_remove_def)

lemma left_file_not_directory: "map_option File left \<noteq> Some Directory"
  by (cases left) simp_all

lemma predict_valid:
  assumes "files req ''image'' = Some part" and "filename part = Some name"
    and "name \<noteq> []" and "allowed_file name"
  shows "predict c req w =
     (case try_block c part (destination c name) w of
        (Inr resp, w') \<Rightarrow> (Inr resp, w')
      | (Inl e, w') \<Rightarrow> except_block e (destination c name) w')"
  using assms by (simp add: predict_def Let_def)

lemma try_block_save_fails:
  assumes "file_save c = WriteFails m left"
  shows "try_block c part p w = (Inl (Exn m), w\<lparr>fs := (fs w)(p := left)\<rparr>)"
  using assms by (simp add: try_block_def FileStorage_save_def)

lemma try_block_not_image:
  assumes "file_save c = Written" and "content part = NotAnImage m"
  shows "try_block c part p w = (Inl (Exn m), w\<lparr>fs := (fs w)(p \<mapsto> File (NotAnImage m))\<rparr>)"
  using assms by (simp add: try_block_def FileStorage_save_def Image_open_def)

lemma try_block_resize_fails:
  assumes "file_save c = Written" and "content part = ImageFile iw ih"
    and "img_save c = WriteFails m left"
  shows "try_block c part p w =
     (Inl (Exn (''Error resizing image: '' @ m)),
      w\<lparr>fs := (fs w)(p := map_option File left)\<rparr>)"
  using assms
  by (simp add: try_block_def FileStorage_save_def Image_open_def resize_image_def)

lemma try_block_resized:
  assumes "file_save c = Written" and "content part = ImageFile iw ih"
    and "img_save c = Written"
  shows "try_block c part p w =
     (case model_predict c (Some (ImageFile 224 224)) of
        Inl e \<Rightarrow> (Inl e, \<lparr>fs = (fs w)(p \<mapsto> File (ImageFile 224 224)),
                            model_calls = model_calls w @ [(p, Some (ImageFile 224 224))]\<rparr>)
      | Inr r \<Rightarrow> (format_results (float_fmt c) r,
                   \<lparr>fs = (fs w)(p := None),
                    model_calls = model_calls w @ [(p, Some (ImageFile 224 224))]\<rparr>))"
  using assms
  by (simp add: try_block_def FileStorage_save_def Image_open_def resize_image_def
      call_model_def file_at_def os_remove_def split: sum.splits)

text \<open>
  Once the upload is saved, a request that passes validation is answered whatever the other
  collaborators do, and the file system afterwards is the one before without the
  destination.
\<close>

lemma predict_cleans_up:
  assumes v: "files req ''image'' = Some part" "filename part = Some name"
    "name \<noteq> []" "allowed_file name"
    and Written: "file_save c = Written"
  shows "(\<exists>resp. fst (predict c req w) = Inr resp) \<and>
         fs (snd (predict c req w)) = (fs w)(destination c name := None)"
proof (cases "content part")
  case (NotAnImage m)
  show ?thesis
    by (simp add: predict_valid [OF v] try_block_not_image [OF Written NotAnImage]
        except_block_removable)
next
  case (ImageFile iw ih)
  show ?thesis
  proof (cases "img_save c")
    case (WriteFails m left)
    show ?thesis
      by (simp add: predict_valid [OF v] try_block_resize_fails [OF Written ImageFile WriteFails]
          except_block_removable left_file_not_directory)
  next
    case W2: Written
    show ?thesis
      by (simp add: predict_valid [OF v] try_block_resized [OF Written ImageFile W2]
          except_block_removable split: sum.splits)
  qed
qed

text \<open>No step touches a path other than the destination.\<close>

lemma try_block_elsewhere:
  assumes "q \<noteq> p"
  shows "fs (snd (try_block c part p w)) q = fs w q"
proof (cases "file_save c")
  case (WriteFails m left)
  with assms show ?thesis by (simp add: try_block_save_fails)
next
  case Written
  show ?thesis
  proof (cases "content part")
    case (NotAnImage m)
    with assms show ?thesis by (simp add: try_block_not_image [OF Written])
  next
    case (ImageFile iw ih)
    show ?thesis
    proof (cases "img_save c")
      case (WriteFails m left)
      with assms show ?thesis
        by (simp add: try_block_resize_fails [OF Written ImageFile])
    next
      case W2: Written
      with assms show ?thesis
        by (simp add: try_block_resized [OF Written ImageFile W2] split: sum.splits)
    qed
  qed
qed

lemma except_block_elsewhere:
  assumes "q \<noteq> p"
  shows "fs (snd (except_block e p w)) q = fs w q"
proof (cases "fs w p = Some Directory")
  case True
  then show ?thesis by (simp add: except_block_directory)
next
  case False
  with assms show ?thesis by (simp add: except_block_removable)
qed

lemma predict_elsewhere:
  assumes v: "files req ''image'' = Some part" "filename part = Some name"
    "name \<noteq> []" "allowed_file name"
    and q: "q \<noteq> destination c name"
  shows "fs (snd (predict c req w)) q = fs w q"
proof -
  obtain r w' where t: "try_block c part (destination c name) w = (r, w')"
    by (cases "try_block c part (destination c name) w")
  have w': "fs w' q = fs w q" using try_block_elsewhere [OF q, of c part w] t by simp
  show ?thesis
  proof (cases r)
    case (Inr resp)
    with t w' show ?thesis by (simp add: predict_valid [OF v])
  next
    case (Inl e)
    with t w' show ?thesis
      by (simp add: predict_valid [OF v] except_block_elsewhere [OF q])
  qed
qed

text \<open>The name \<open>happy.jpg\<close> passes validation and is its own sanitised form.\<close>

lemma allowed_happy: "allowed_file ''happy.jpg''"
  by (simp add: allowed_file_def py_rsplit1_def py_lower_def lower_char_def ALLOWED_EXTENSIONS_def)

lemma secure_happy: "secure_filename ''happy.jpg'' = ''happy.jpg''"
  by code_simp

lemma destination_happy:
  "destination (mock_collaborators m) ''happy.jpg'' = ''/srv/app/uploads/happy.jpg''"
  by (simp add: destination_def secure_happy mock_collaborators_def UPLOADS_DIR_def
      os_path_join_def)

lemma files_upload_request:
  "files (upload_request name data) ''image'' = Some \<lparr>filename = Some name, content = data\<rparr>"
  by (simp add: upload_request_def)

lemma mock_fields:
  "cwd (mock_collaborators m) = ''/srv/app''"
  "file_save (mock_collaborators m) = Written"
  "img_save (mock_collaborators m) = Written"
  "model_predict (mock_collaborators m) = m"
  "float_fmt (mock_collaborators m) = Binary32"
  by (simp_all add: mock_collaborators_def)

subsection \<open>Clean-up and failures\<close>

text \<open>
  C2. When the upload has been persisted, the handler answers (no exception leaves it) and,
  whichever way it answers (predictions, no probability vector, or an exception while
  opening, resizing or classifying), the file system afterwards has no file at the
  destination and is otherwise the one before the request.
\<close>

theorem scratch_file_removed:
  assumes "files req ''image'' = Some file" and "filename file = Some name"
    and "name \<noteq> []" and "allowed_file name" and "file_save c = Written"
  shows "(\<exists>resp. fst (predict c req w) = Inr resp) \<and>
         fs (snd (predict c req w)) (destination c name) = None \<and>
         fs (snd (predict c req w)) = (fs w)(destination c name := None)"
  using predict_cleans_up [OF assms, of w] by simp

theorem scratch_file_removed_witness:
  "files (upload_request ''happy.jpg'' (ImageFile 640 480)) ''image''
     = Some \<lparr>filename = Some ''happy.jpg'', content = ImageFile 640 480\<rparr> \<and>
   allowed_file ''happy.jpg'' \<and>
   file_save (mock_collaborators (\<lambda>f. Inl (Exn ''out of memory''))) = Written \<and>
   (\<exists>resp. fst (predict (mock_collaborators (\<lambda>f. Inl (Exn ''out of memory'')))
      (upload_request ''happy.jpg'' (ImageFile 640 480)) empty_world) = Inr resp) \<and>
   fs (snd (predict (mock_collaborators (\<lambda>f. Inl (Exn ''out of memory'')))
      (upload_request ''happy.jpg'' (ImageFile 640 480)) empty_world))
      ''/srv/app/uploads/happy.jpg'' = None"
proof -
  let ?c = "mock_collaborators (\<lambda>f. Inl (Exn ''out of memory''))"
  have s: "file_save ?c = Written" by (simp add: mock_collaborators_def)
  show ?thesis
    using scratch_file_removed [OF files_upload_request _ _ allowed_happy s, where w = empty_world]
      allowed_happy s files_upload_request [of "''happy.jpg''" "ImageFile 640 480"]
    by (simp add: destination_happy)
qed

text \<open>
  What the handler does with an exception of one of the four steps, as long as a failed
  save leaves no directory at the destination: the answer has status 500 and the error
  string \<open>Error during prediction: \<close> followed by the string form of the exception that
  reached the \<open>except\<close> clause (for the resize step that is the \<open>RuntimeError\<close> of
  \<open>resize_image\<close>, whose string form is \<open>Error resizing image: \<close> and the string form of the
  original exception), and no file remains at the destination.
\<close>

lemma exceptions_answered_500:
  assumes v: "files req ''image'' = Some part" "filename part = Some name"
    "name \<noteq> []" "allowed_file name"
  shows
    "(\<forall>m left. file_save c = WriteFails m left \<and> left \<noteq> Some Directory \<longrightarrow>
        predict c req w =
          (Inr (ErrorBody (''Error during prediction: '' @ m), 500),
           w\<lparr>fs := (fs w)(destination c name := None)\<rparr>)) \<and>
     (\<forall>m. file_save c = Written \<and> content part = NotAnImage m \<longrightarrow>
        predict c req w =
          (Inr (ErrorBody (''Error during prediction: '' @ m), 500),
           w\<lparr>fs := (fs w)(destination c name := None)\<rparr>)) \<and>
     (\<forall>iw ih m left. file_save c = Written \<and> content part = ImageFile iw ih \<and>
          img_save c = WriteFails m left \<longrightarrow>
        predict c req w =
          (Inr (ErrorBody (''Error during prediction: '' @ ''Error resizing image: '' @ m), 500),
           w\<lparr>fs := (fs w)(destination c name := None)\<rparr>)) \<and>
     (\<forall>iw ih m. file_save c = Written \<and> content part = ImageFile iw ih \<and>
          img_save c = Written \<and> model_predict c (Some (ImageFile 224 224)) = Inl (Exn m) \<longrightarrow>
        predict c req w =
          (Inr (ErrorBody (''Error during prediction: '' @ m), 500),
           \<lparr>fs = (fs w)(destination c name := None),
            model_calls = model_calls w @ [(destination c name, Some (ImageFile 224 224))]\<rparr>))"
proof (intro conjI allI impI)
  fix m left assume "file_save c = WriteFails m left \<and> left \<noteq> Some Directory"
  then show "predict c req w =
          (Inr (ErrorBody (''Error during prediction: '' @ m), 500),
           w\<lparr>fs := (fs w)(destination c name := None)\<rparr>)"
    by (simp add: predict_valid [OF v] try_block_save_fails except_block_removable)
next
  fix m assume "file_save c = Written \<and> content part = NotAnImage m"
  then show "predict c req w =
          (Inr (ErrorBody (''Error during prediction: '' @ m), 500),
           w\<lparr>fs := (fs w)(destination c name := None)\<rparr>)"
    by (simp add: predict_valid [OF v] try_block_not_image except_block_removable)
next
  fix iw ih m left
  assume "file_save c = Written \<and> content part = ImageFile iw ih \<and>
          img_save c = WriteFails m left"
  then show "predict c req w =
          (Inr (ErrorBody (''Error during prediction: '' @ ''Error resizing image: '' @ m), 500),
           w\<lparr>fs := (fs w)(destination c name := None)\<rparr>)"
    by (simp add: predict_valid [OF v] try_block_resize_fails [of c _ iw ih m left]
        except_block_removable left_file_not_directory)
next
  fix iw ih m
  assume "file_save c = Written \<and> content part = ImageFile iw ih \<and>
          img_save c = Written \<and> model_predict c (Some (ImageFile 224 224)) = Inl (Exn m)"
  then show "predict c req w =
          (Inr (ErrorBody (''Error during prediction: '' @ m), 500),
           \<lparr>fs = (fs w)(destination c name := None),
            model_calls = model_calls w @ [(destination c name, Some (ImageFile 224 224))]\<rparr>)"
    by (simp add: predict_valid [OF v] try_block_resized [of c _ iw ih] except_block_removable)
qed

text \<open>
  C3. The claim: whenever saving, opening, resizing or classifying raises, the handler
  catches the exception, removes the file if it still exists and answers with status 500
  and a JSON error, and no exception leaves it. The code does not do this when the
  destination is a directory. Then \<open>file.save\<close> raises, the \<open>except\<close> clause finds that the
  path exists and calls \<open>os.remove\<close> on the directory, which raises; nothing catches that
  exception (the \<open>os.remove\<close> of line 81 is inside the \<open>try\<close>, the one of line 96 is not),
  so it leaves the handler: no JSON answer is returned and the path is still there.
\<close>

theorem except_clause_raises_on_directory:
  "predict save_on_directory (upload_request ''happy.jpg'' (ImageFile 640 480)) blocked_world =
     (Inl (Exn (is_a_directory ''/srv/app/uploads/happy.jpg'')), blocked_world)"
proof -
  have d: "destination save_on_directory ''happy.jpg'' = ''/srv/app/uploads/happy.jpg''"
    using destination_happy [of "\<lambda>f. Inr NotList"]
    by (simp add: destination_def save_on_directory_def)
  have s: "file_save save_on_directory =
      WriteFails (is_a_directory ''/srv/app/uploads/happy.jpg'') (Some Directory)"
    by (simp add: save_on_directory_def)
  have b: "blocked_world\<lparr>fs := (fs blocked_world)(''/srv/app/uploads/happy.jpg'' \<mapsto> Directory)\<rparr>
      = blocked_world"
    by (simp add: blocked_world_def)
  have f: "fs blocked_world ''/srv/app/uploads/happy.jpg'' = Some Directory"
    by (simp add: blocked_world_def)
  show ?thesis
    by (simp add: predict_valid [OF files_upload_request _ _ allowed_happy] d
        try_block_save_fails [OF s] b except_block_directory [OF f])
qed

text \<open>
  C6. When the upload was saved, opened and resized and the classifier returns a value that
  carries no probability vector for the first result (it is not a list, it is the empty
  list, its first element has no attribute \<open>probs\<close>, or that attribute is \<open>None\<close>), the
  answer has status 500 and an error body, never predictions. The empty list gets there
  through the \<open>IndexError\<close> of \<open>results[0]\<close> and the \<open>except\<close> clause; the three other
  shapes through the \<open>else\<close> branch.
\<close>

theorem no_probability_vector_500:
  assumes v: "files req ''image'' = Some file" "filename file = Some name"
    "name \<noteq> []" "allowed_file name"
    and ok: "file_save c = Written" "content file = ImageFile iw ih" "img_save c = Written"
    and r: "model_predict c (Some (ImageFile 224 224)) = Inr r"
    and n: "\<not> has_first_probs r"
  shows "fst (predict c req w) =
     Inr (ErrorBody
            (if r = PyList [] then ''Error during prediction: list index out of range''
             else ''Unable to process the image''),
          500)"
  using n
  by (cases "(float_fmt c, r)" rule: format_results.cases)
     (simp_all add: predict_valid [OF v] try_block_resized [OF ok] r except_block_removable)

theorem no_probability_vector_500_witness:
  "\<not> has_first_probs (PyList []) \<and> \<not> has_first_probs (PyList [ProbsNone]) \<and>
   fst (predict (mock_collaborators (\<lambda>f. Inr (PyList [])))
          (upload_request ''happy.jpg'' (ImageFile 640 480)) empty_world)
     = Inr (ErrorBody ''Error during prediction: list index out of range'', 500) \<and>
   fst (predict (mock_collaborators (\<lambda>f. Inr (PyList [ProbsNone])))
          (upload_request ''happy.jpg'' (ImageFile 640 480)) empty_world)
     = Inr (ErrorBody ''Unable to process the image'', 500)"
proof -
  have s: "file_save (mock_collaborators m) = Written" "img_save (mock_collaborators m) = Written"
    "model_predict (mock_collaborators m) = m" for m
    by (simp_all add: mock_collaborators_def)
  have c: "content \<lparr>filename = Some ''happy.jpg'', content = ImageFile 640 480\<rparr> = ImageFile 640 480"
    by simp
  have n1: "\<not> has_first_probs (PyList [])" and n2: "\<not> has_first_probs (PyList [ProbsNone])"
    by simp_all
  have "fst (predict (mock_collaborators (\<lambda>f. Inr (PyList [])))
          (upload_request ''happy.jpg'' (ImageFile 640 480)) empty_world)
     = Inr (ErrorBody ''Error during prediction: list index out of range'', 500)"
    using no_probability_vector_500 [OF files_upload_request _ _ allowed_happy s(1) c s(2) _ n1,
        where w = empty_world]
    by (simp add: s)
  moreover have "fst (predict (mock_collaborators (\<lambda>f. Inr (PyList [ProbsNone])))
          (upload_request ''happy.jpg'' (ImageFile 640 480)) empty_world)
     = Inr (ErrorBody ''Unable to process the image'', 500)"
    using no_probability_vector_500 [OF files_upload_request _ _ allowed_happy s(1) c s(2) _ n2,
        where w = empty_world]
    by (simp add: s)
  ultimately show ?thesis using n1 n2 by simp
qed

text \<open>The name \<open>.png\<close> passes validation, and its sanitised form has no extension.\<close>

lemma allowed_dot_png: "allowed_file ''.png''"
  by (simp add: allowed_file_def py_rsplit1_def py_lower_def lower_char_def ALLOWED_EXTENSIONS_def)

lemma secure_dot_png: "secure_filename ''.png'' = ''png''"
  by code_simp

lemma destination_dot_png:
  "destination save_without_extension ''.png'' = ''/srv/app/uploads/png''"
  by (simp add: destination_def secure_dot_png save_without_extension_def mock_fields
      UPLOADS_DIR_def os_path_join_def)

text \<open>
  C8, as claimed, fails, at two inputs. An upload named \<open>.png\<close> that is a valid image of
  640 by 480 is persisted at \<open>uploads/png\<close>; PIL's \<open>img.save\<close> finds no extension and
  raises, so \<open>resize_image\<close> raises and leaves the file as it was, 640 by 480. An upload
  named \<open>happy.jpg\<close> that is a valid image with an alpha channel is persisted; \<open>img.save\<close>
  cannot write it as JPEG and raises, so \<open>resize_image\<close> raises and leaves a truncated file.
  In both cases the answer has status 500 and the classifier is not called.
\<close>

theorem resize_not_always_done_counterexample:
  "allowed_file ''.png'' \<and>
   FileStorage_save save_without_extension
       \<lparr>filename = Some ''.png'', content = ImageFile 640 480\<rparr> ''/srv/app/uploads/png''
       empty_world =
     (Inr (), \<lparr>fs = [''/srv/app/uploads/png'' \<mapsto> File (ImageFile 640 480)], model_calls = []\<rparr>) \<and>
   resize_image save_without_extension ''/srv/app/uploads/png'' (224, 224)
       \<lparr>fs = [''/srv/app/uploads/png'' \<mapsto> File (ImageFile 640 480)], model_calls = []\<rparr> =
     (Inl (Exn ''Error resizing image: unknown file extension: ''),
      \<lparr>fs = [''/srv/app/uploads/png'' \<mapsto> File (ImageFile 640 480)], model_calls = []\<rparr>) \<and>
   predict save_without_extension (upload_request ''.png'' (ImageFile 640 480)) empty_world =
     (Inr (ErrorBody
             ''Error during prediction: Error resizing image: unknown file extension: '', 500),
      empty_world) \<and>
   allowed_file ''happy.jpg'' \<and>
   FileStorage_save save_rgba_as_jpeg
       \<lparr>filename = Some ''happy.jpg'', content = ImageFile 640 480\<rparr>
       ''/srv/app/uploads/happy.jpg'' empty_world =
     (Inr (),
      \<lparr>fs = [''/srv/app/uploads/happy.jpg'' \<mapsto> File (ImageFile 640 480)], model_calls = []\<rparr>) \<and>
   resize_image save_rgba_as_jpeg ''/srv/app/uploads/happy.jpg'' (224, 224)
       \<lparr>fs = [''/srv/app/uploads/happy.jpg'' \<mapsto> File (ImageFile 640 480)], model_calls = []\<rparr> =
     (Inl (Exn ''Error resizing image: cannot write mode RGBA as JPEG''),
      \<lparr>fs = [''/srv/app/uploads/happy.jpg'' \<mapsto> File (NotAnImage ''cannot identify image file'')],
       model_calls = []\<rparr>) \<and>
   predict save_rgba_as_jpeg (upload_request ''happy.jpg'' (ImageFile 640 480)) empty_world =
     (Inr (ErrorBody
             ''Error during prediction: Error resizing image: cannot write mode RGBA as JPEG'',
           500),
      empty_world) \<and>
   model_calls empty_world = []"
proof -
  let ?c = save_without_extension
  let ?p = "''/srv/app/uploads/png''"
  let ?w1 = "\<lparr>fs = [?p \<mapsto> File (ImageFile 640 480)], model_calls = []\<rparr>"
  have s: "file_save ?c = Written"
    and i: "img_save ?c = WriteFails ''unknown file extension: '' (Some (ImageFile 640 480))"
    by (simp_all add: save_without_extension_def mock_fields)
  have 1: "FileStorage_save ?c \<lparr>filename = Some ''.png'', content = ImageFile 640 480\<rparr> ?p
      empty_world = (Inr (), ?w1)"
    by (simp add: FileStorage_save_def s empty_world_def)
  have 2: "resize_image ?c ?p (224, 224) ?w1 =
      (Inl (Exn ''Error resizing image: unknown file extension: ''), ?w1)"
    by (simp add: resize_image_def Image_open_def i)
  have e: "empty_world\<lparr>fs := (fs empty_world)(q := None)\<rparr> = empty_world" for q
    by (simp add: empty_world_def)
  have c: "content \<lparr>filename = Some n, content = ImageFile 640 480\<rparr> = ImageFile 640 480" for n
    by simp
  have 3: "predict ?c (upload_request ''.png'' (ImageFile 640 480)) empty_world =
     (Inr (ErrorBody
             ''Error during prediction: Error resizing image: unknown file extension: '', 500),
      empty_world)"
    by (simp add: predict_valid [OF files_upload_request _ _ allowed_dot_png]
        destination_dot_png try_block_resize_fails [OF s c i] except_block_removable e)
  let ?d = save_rgba_as_jpeg
  let ?q = "''/srv/app/uploads/happy.jpg''"
  let ?v1 = "\<lparr>fs = [?q \<mapsto> File (ImageFile 640 480)], model_calls = []\<rparr>"
  have s': "file_save ?d = Written"
    and i': "img_save ?d = WriteFails ''cannot write mode RGBA as JPEG''
                             (Some (NotAnImage ''cannot identify image file''))"
    by (simp_all add: save_rgba_as_jpeg_def mock_fields)
  have d: "destination ?d ''happy.jpg'' = ?q"
    using destination_happy [of "\<lambda>f. Inr NotList"]
    by (simp add: destination_def save_rgba_as_jpeg_def)
  have 4: "FileStorage_save ?d \<lparr>filename = Some ''happy.jpg'', content = ImageFile 640 480\<rparr> ?q
      empty_world = (Inr (), ?v1)"
    by (simp add: FileStorage_save_def s' empty_world_def)
  have 5: "resize_image ?d ?q (224, 224) ?v1 =
      (Inl (Exn ''Error resizing image: cannot write mode RGBA as JPEG''),
       \<lparr>fs = [?q \<mapsto> File (NotAnImage ''cannot identify image file'')], model_calls = []\<rparr>)"
    by (simp add: resize_image_def Image_open_def i')
  have 6: "predict ?d (upload_request ''happy.jpg'' (ImageFile 640 480)) empty_world =
     (Inr (ErrorBody
             ''Error during prediction: Error resizing image: cannot write mode RGBA as JPEG'',
           500),
      empty_world)"
    by (simp add: predict_valid [OF files_upload_request _ _ allowed_happy]
        d try_block_resize_fails [OF s' c i'] except_block_removable e)
  have 7: "model_calls empty_world = []" by (simp add: empty_world_def)
  from allowed_dot_png 1 2 3 allowed_happy 4 5 6 7 show ?thesis by (intro conjI)
qed

text \<open>
  C8, amended. For a request that passes validation, the classifier is called at most
  once, and only on the destination path holding an image of 224 by 224. When the upload
  was saved and is an image, then: if the resize step returns, it has rewritten the file at
  the same path as a 224 by 224 image, leaving every other file alone, and the classifier is
  then called on that path and that file; if the resize step raises, the classifier is not
  called, the answer has status 500 and no file remains at the destination.
\<close>

theorem inference_on_resized_file:
  assumes v: "files req ''image'' = Some file" "filename file = Some name"
    "name \<noteq> []" "allowed_file name"
  shows
    "(model_calls (snd (predict c req w)) = model_calls w \<or>
      model_calls (snd (predict c req w)) =
        model_calls w @ [(destination c name, Some (ImageFile 224 224))]) \<and>
     (\<forall>iw ih. file_save c = Written \<and> content file = ImageFile iw ih \<longrightarrow>
        (fst (resize_image c (destination c name) (224, 224)
               (snd (FileStorage_save c file (destination c name) w))) = Inr () \<longrightarrow>
           snd (resize_image c (destination c name) (224, 224)
                 (snd (FileStorage_save c file (destination c name) w))) =
             w\<lparr>fs := (fs w)(destination c name \<mapsto> File (ImageFile 224 224))\<rparr> \<and>
           model_calls (snd (predict c req w)) =
             model_calls w @ [(destination c name, Some (ImageFile 224 224))]) \<and>
        (fst (resize_image c (destination c name) (224, 224)
               (snd (FileStorage_save c file (destination c name) w))) \<noteq> Inr () \<longrightarrow>
           model_calls (snd (predict c req w)) = model_calls w \<and>
           (\<exists>msg. fst (predict c req w) = Inr (ErrorBody msg, 500)) \<and>
           fs (snd (predict c req w)) (destination c name) = None))"
proof (intro conjI allI impI)
  show "model_calls (snd (predict c req w)) = model_calls w \<or>
      model_calls (snd (predict c req w)) =
        model_calls w @ [(destination c name, Some (ImageFile 224 224))]"
  proof (cases "file_save c")
    case (WriteFails m left)
    show ?thesis
    proof (cases "left = Some Directory")
      case True
      with WriteFails show ?thesis
        by (simp add: predict_valid [OF v] try_block_save_fails except_block_directory)
    next
      case False
      with WriteFails show ?thesis
        by (simp add: predict_valid [OF v] try_block_save_fails except_block_removable)
    qed
  next
    case Written
    show ?thesis
    proof (cases "content file")
      case (NotAnImage m)
      show ?thesis
        by (simp add: predict_valid [OF v] try_block_not_image [OF Written NotAnImage]
            except_block_removable)
    next
      case (ImageFile iw ih)
      show ?thesis
      proof (cases "img_save c")
        case (WriteFails m left)
        show ?thesis
          by (simp add: predict_valid [OF v]
              try_block_resize_fails [OF Written ImageFile WriteFails] except_block_removable
              left_file_not_directory)
      next
        case W2: Written
        show ?thesis
          by (simp add: predict_valid [OF v] try_block_resized [OF Written ImageFile W2]
              except_block_removable split: sum.splits)
      qed
    qed
  qed
next
  fix iw ih
  assume a: "file_save c = Written \<and> content file = ImageFile iw ih"
  assume r: "fst (resize_image c (destination c name) (224, 224)
               (snd (FileStorage_save c file (destination c name) w))) = Inr ()"
  from a r have i: "img_save c = Written"
    by (cases "img_save c")
       (simp_all add: resize_image_def FileStorage_save_def Image_open_def)
  from a i show "snd (resize_image c (destination c name) (224, 224)
                 (snd (FileStorage_save c file (destination c name) w))) =
             w\<lparr>fs := (fs w)(destination c name \<mapsto> File (ImageFile 224 224))\<rparr>"
    by (simp add: resize_image_def FileStorage_save_def Image_open_def)
  from a i show "model_calls (snd (predict c req w)) =
          model_calls w @ [(destination c name, Some (ImageFile 224 224))]"
    by (simp add: predict_valid [OF v] try_block_resized [of c _ iw ih]
            except_block_removable split: sum.splits)
next
  fix iw ih
  assume a: "file_save c = Written \<and> content file = ImageFile iw ih"
  assume r: "fst (resize_image c (destination c name) (224, 224)
               (snd (FileStorage_save c file (destination c name) w))) \<noteq> Inr ()"
  from a r obtain m left where i: "img_save c = WriteFails m left"
    by (cases "img_save c")
       (simp_all add: resize_image_def FileStorage_save_def Image_open_def)
  from a have p: "predict c req w =
          (Inr (ErrorBody (''Error during prediction: '' @ ''Error resizing image: '' @ m), 500),
           w\<lparr>fs := (fs w)(destination c name := None)\<rparr>)"
    by (simp add: predict_valid [OF v] try_block_resize_fails [of c _ iw ih, OF _ _ i]
        except_block_removable left_file_not_directory)
  from p show "model_calls (snd (predict c req w)) = model_calls w" by simp
  from p show "\<exists>msg. fst (predict c req w) = Inr (ErrorBody msg, 500)" by simp
  from p show "fs (snd (predict c req w)) (destination c name) = None" by simp
qed

theorem inference_on_resized_file_witness:
  "allowed_file ''happy.jpg'' \<and>
   file_save (mock_collaborators (\<lambda>f. Inr NotList)) = Written \<and>
   fst (resize_image (mock_collaborators (\<lambda>f. Inr NotList)) ''/srv/app/uploads/happy.jpg''
          (224, 224)
          (snd (FileStorage_save (mock_collaborators (\<lambda>f. Inr NotList))
                  \<lparr>filename = Some ''happy.jpg'', content = ImageFile 640 480\<rparr>
                  ''/srv/app/uploads/happy.jpg'' empty_world))) = Inr () \<and>
   snd (resize_image (mock_collaborators (\<lambda>f. Inr NotList)) ''/srv/app/uploads/happy.jpg''
          (224, 224)
          (snd (FileStorage_save (mock_collaborators (\<lambda>f. Inr NotList))
                  \<lparr>filename = Some ''happy.jpg'', content = ImageFile 640 480\<rparr>
                  ''/srv/app/uploads/happy.jpg'' empty_world)))
     = empty_world\<lparr>fs := (fs empty_world)
                            (''/srv/app/uploads/happy.jpg'' \<mapsto> File (ImageFile 224 224))\<rparr> \<and>
   model_calls (snd (predict (mock_collaborators (\<lambda>f. Inr NotList))
      (upload_request ''happy.jpg'' (ImageFile 640 480)) empty_world))
     = [(''/srv/app/uploads/happy.jpg'', Some (ImageFile 224 224))]"
proof -
  let ?c = "mock_collaborators (\<lambda>f. Inr NotList)"
  let ?u = "\<lparr>filename = Some ''happy.jpg'', content = ImageFile 640 480\<rparr>"
  let ?p = "''/srv/app/uploads/happy.jpg''"
  have s: "file_save ?c = Written \<and> content ?u = ImageFile 640 480"
    by (simp add: mock_fields)
  have r: "fst (resize_image ?c ?p (224, 224) (snd (FileStorage_save ?c ?u ?p empty_world)))
             = Inr ()"
    by (simp add: resize_image_def FileStorage_save_def Image_open_def mock_fields)
  have m: "model_calls empty_world = []" by (simp add: empty_world_def)
  have n: "filename ?u = Some ''happy.jpg''" "''happy.jpg'' \<noteq> []" by simp_all
  note t = inference_on_resized_file
      [OF files_upload_request [of "''happy.jpg''" "ImageFile 640 480"] n allowed_happy,
        where c = ?c and w = empty_world, unfolded destination_happy]
  from t s r have "snd (resize_image ?c ?p (224, 224)
        (snd (FileStorage_save ?c ?u ?p empty_world))) =
      empty_world\<lparr>fs := (fs empty_world)(?p \<mapsto> File (ImageFile 224 224))\<rparr> \<and>
      model_calls (snd (predict ?c (upload_request ''happy.jpg'' (ImageFile 640 480))
        empty_world)) = model_calls empty_world @ [(?p, Some (ImageFile 224 224))]"
    by blast
  with allowed_happy s r m show ?thesis by simp
qed

subsection \<open>The destination path\<close>

text \<open>
  A name that passes the extension test ends in \<open>g\<close> or \<open>G\<close>, and the sanitiser keeps such
  a last character: each of its steps maps a string ending in it to a string ending in it.
\<close>

lemma lower_char_g: "lower_char c = CHR ''g'' \<Longrightarrow> c = CHR ''g'' \<or> c = CHR ''G''"
  unfolding lower_char_def by (simp split: if_splits)

lemma allowed_file_last:
  assumes "allowed_file name"
  shows "\<exists>t c. name = t @ [c] \<and> (c = CHR ''g'' \<or> c = CHR ''G'')"
proof -
  from assms obtain stem ext a where n: "name = stem @ ''.'' @ ext"
    and a: "a \<in> ALLOWED_EXTENSIONS" and l: "py_lower ext = py_lower a"
    unfolding allowed_file_iff has_allowed_extension_def by blast
  from l a have m: "map lower_char ext = a" by (simp add: py_lower_allowed) (simp add: py_lower_def)
  from a have "a \<noteq> [] \<and> last a = CHR ''g''" by (auto simp: ALLOWED_EXTENSIONS_def)
  with m have ne: "ext \<noteq> []" and "last (map lower_char ext) = CHR ''g''" by auto
  then have "lower_char (last ext) = CHR ''g''" by (simp add: last_map)
  then have g: "last ext = CHR ''g'' \<or> last ext = CHR ''G''" by (rule lower_char_g)
  have "name = (stem @ ''.'' @ butlast ext) @ [last ext]" using n ne by simp
  with g show ?thesis by blast
qed

lemma join_split_last:
  assumes "\<not> is_space c"
  shows "\<exists>u. py_join sep (split_from cur (t @ [c])) = u @ [c]"
proof (induction t arbitrary: cur)
  case Nil
  show ?case using assms by simp
next
  case (Cons x t)
  show ?case
  proof (cases "is_space x")
    case False
    then show ?thesis using Cons.IH [of "cur @ [x]"] by simp
  next
    case True
    from Cons.IH [of "[]"] obtain u where u: "py_join sep (split_from [] (t @ [c])) = u @ [c]"
      by blast
    show ?thesis
    proof (cases "cur = []")
      case True
      with \<open>is_space x\<close> u show ?thesis by simp
    next
      case False
      from u obtain v vs where vs: "split_from [] (t @ [c]) = v # vs"
        by (cases "split_from [] (t @ [c])") auto
      with u have "py_join sep (cur # split_from [] (t @ [c])) = (cur @ sep @ u) @ [c]" by simp
      with False \<open>is_space x\<close> show ?thesis by auto
    qed
  qed
qed

lemma strip_last:
  assumes "c \<notin> set chars"
  shows "\<exists>u. py_strip chars (t @ [c]) = u @ [c]"
proof -
  let ?P = "\<lambda>c. c \<in> set chars"
  have "\<exists>d. dropWhile ?P (t @ [c]) = d @ [c]"
  proof (cases "\<forall>x \<in> set t. ?P x")
    case True
    then have "dropWhile ?P (t @ [c]) = dropWhile ?P [c]" by (simp add: dropWhile_append2)
    with assms show ?thesis by simp
  next
    case False
    then have "dropWhile ?P (t @ [c]) = dropWhile ?P t @ [c]" by (auto simp: dropWhile_append1)
    then show ?thesis by blast
  qed
  then obtain d where d: "dropWhile ?P (t @ [c]) = d @ [c]" by blast
  have "py_strip chars (t @ [c]) = d @ [c]"
    using assms by (simp add: py_strip_def d)
  then show ?thesis by blast
qed

lemma secure_filename_last:
  assumes "c = CHR ''g'' \<or> c = CHR ''G''"
  shows "\<exists>u. secure_filename (t @ [c]) = u @ [c]"
proof -
  from assms have ascii: "(of_char c :: nat) < 128" and sl: "c \<noteq> CHR ''/''"
    and sp: "\<not> is_space c" and safe: "c \<in> set safe_chars" and st: "c \<notin> set ''._''"
    by (auto simp: is_space_def safe_chars_def)
  let ?spaced = "py_replace (CHR ''/'') (CHR '' '') (filter (\<lambda>c. (of_char c :: nat) < 128) (t @ [c]))"
  have "?spaced = py_replace (CHR ''/'') (CHR '' '') (filter (\<lambda>c. (of_char c :: nat) < 128) t) @ [c]"
    using ascii sl by (simp add: py_replace_def)
  then obtain t1 where 1: "?spaced = t1 @ [c]" by blast
  obtain t2 where 2: "py_join ''_'' (py_split (t1 @ [c])) = t2 @ [c]"
    using join_split_last [OF sp] unfolding py_split_def by blast
  have 3: "filter (\<lambda>c. c \<in> set safe_chars) (t2 @ [c]) = filter (\<lambda>c. c \<in> set safe_chars) t2 @ [c]"
    using safe by simp
  obtain u where 4: "py_strip ''._'' (filter (\<lambda>c. c \<in> set safe_chars) t2 @ [c]) = u @ [c]"
    using strip_last [OF st] by blast
  have "secure_filename (t @ [c]) = u @ [c]"
    unfolding secure_filename_def Let_def 1 2 3 4 ..
  then show ?thesis by blast
qed

lemma secure_filename_safe: "set (secure_filename name) \<subseteq> set safe_chars"
proof -
  have "set (py_strip chars s) \<subseteq> set s" for chars s
    unfolding py_strip_def by (auto dest!: set_dropWhileD)
  then show ?thesis unfolding secure_filename_def Let_def
    by (rule subset_trans) auto
qed

lemma slash_not_safe: "CHR ''/'' \<notin> set safe_chars"
  by (simp add: safe_chars_def)

lemma UPLOADS_DIR_shape: "\<exists>d. UPLOADS_DIR wd = d @ ''s''"
proof -
  have "UPLOADS_DIR wd = (wd @ ''upload'') @ ''s'' \<or> UPLOADS_DIR wd = (wd @ ''/upload'') @ ''s''"
    by (simp add: UPLOADS_DIR_def os_path_join_def)
  then show ?thesis by blast
qed

lemma join_inside:
  assumes "n \<noteq> []" and "CHR ''/'' \<notin> set n"
  shows "os_path_join (UPLOADS_DIR wd) n = UPLOADS_DIR wd @ ''/'' @ n"
proof -
  obtain d where d: "UPLOADS_DIR wd = d @ ''s''" using UPLOADS_DIR_shape by blast
  from assms have "hd n \<noteq> CHR ''/''" by (cases n) auto
  then show ?thesis by (simp add: os_path_join_def d)
qed

lemma allowed_traversal: "allowed_file ''../../etc/passwd.png''"
  by (simp add: allowed_file_def py_rsplit1_def py_lower_def lower_char_def ALLOWED_EXTENSIONS_def)

lemma secure_traversal: "secure_filename ''../../etc/passwd.png'' = ''etc_passwd.png''"
  by code_simp

text \<open>
  C7. For a client-supplied name that passes the extension test, the handler sanitises the
  name: the sanitised name consists of letters, digits, \<open>_\<close>, \<open>.\<close> and \<open>-\<close> only. The
  destination is the uploads directory, one \<open>/\<close> and the sanitised name, which is not
  empty, has no \<open>/\<close> and is neither \<open>.\<close> nor \<open>..\<close>: the destination lies inside the
  uploads directory, and the request changes no other path of the file system.
\<close>

theorem destination_inside_uploads:
  assumes v: "files req ''image'' = Some file" "filename file = Some name"
    "name \<noteq> []" "allowed_file name"
  shows "set (secure_filename name) \<subseteq> set safe_chars \<and>
         destination c name = UPLOADS_DIR (cwd c) @ ''/'' @ secure_filename name \<and>
         inside_dir (UPLOADS_DIR (cwd c)) (destination c name) \<and>
         (\<forall>q. q \<noteq> destination c name \<longrightarrow> fs (snd (predict c req w)) q = fs w q)"
proof -
  obtain t g where n: "name = t @ [g]" and g: "g = CHR ''g'' \<or> g = CHR ''G''"
    using allowed_file_last [OF v(4)] by blast
  obtain u where u: "secure_filename name = u @ [g]"
    using secure_filename_last [OF g] n by blast
  have safe: "set (secure_filename name) \<subseteq> set safe_chars" by (rule secure_filename_safe)
  then have sl: "CHR ''/'' \<notin> set (secure_filename name)" using slash_not_safe by blast
  have ne: "secure_filename name \<noteq> []" using u by simp
  have d: "destination c name = UPLOADS_DIR (cwd c) @ ''/'' @ secure_filename name"
    unfolding destination_def by (rule join_inside [OF ne sl])
  have dots: "secure_filename name \<noteq> ''.'' \<and> secure_filename name \<noteq> ''..''"
    using u g by (cases u rule: rev_cases) auto
  have i: "inside_dir (UPLOADS_DIR (cwd c)) (destination c name)"
    unfolding inside_dir_def Let_def d using ne sl dots by simp
  have "\<forall>q. q \<noteq> destination c name \<longrightarrow> fs (snd (predict c req w)) q = fs w q"
    using predict_elsewhere [OF v] by blast
  with safe d i show ?thesis by blast
qed

theorem destination_inside_uploads_witness:
  "allowed_file ''../../etc/passwd.png'' \<and>
   destination (mock_collaborators (\<lambda>f. Inr NotList)) ''../../etc/passwd.png''
     = ''/srv/app/uploads/etc_passwd.png'' \<and>
   inside_dir ''/srv/app/uploads'' ''/srv/app/uploads/etc_passwd.png'' \<and>
   fs (snd (predict (mock_collaborators (\<lambda>f. Inr NotList))
               (upload_request ''../../etc/passwd.png'' (ImageFile 640 480)) empty_world))
      ''/etc/passwd.png'' = None"
proof -
  let ?c = "mock_collaborators (\<lambda>f. Inr NotList)"
  have u: "UPLOADS_DIR (cwd ?c) = ''/srv/app/uploads''"
    by (simp add: mock_fields UPLOADS_DIR_def os_path_join_def)
  have e: "fs empty_world ''/etc/passwd.png'' = None" by (simp add: empty_world_def)
  note t = destination_inside_uploads
      [OF files_upload_request [of "''../../etc/passwd.png''" "ImageFile 640 480"] _ _
        allowed_traversal, where c = ?c and w = empty_world]
  have d: "destination ?c ''../../etc/passwd.png'' = ''/srv/app/uploads/etc_passwd.png''"
    using t by (simp add: u secure_traversal)
  have i: "inside_dir ''/srv/app/uploads'' ''/srv/app/uploads/etc_passwd.png''"
    using t by (simp add: u d secure_traversal)
  have "fs (snd (predict ?c (upload_request ''../../etc/passwd.png'' (ImageFile 640 480))
                  empty_world)) ''/etc/passwd.png'' = None"
    using t by (simp add: u d secure_traversal e)
  with d i allowed_traversal show ?thesis by simp
qed

subsection \<open>Labels and percentages\<close>



















text \<open>
  The scenario's strings are the same when the numbers are the binary64 neighbours of
  0.01, 0.02 and 0.95 and the product is taken in binary64, and when binary32 numbers are
  multiplied in binary64.
\<close>

lemma happy_products_binary64:
  "percent_hundredths Binary64 (float_round 53 (1 / 100)) = 100"
  "percent_hundredths Binary64 (float_round 53 (1 / 50)) = 200"
  "percent_hundredths Binary64 (float_round 53 (19 / 20)) = 9500"
  "percent_hundredths Binary64 (float_round 24 (1 / 100)) = 100"
  "percent_hundredths Binary64 (float_round 24 (1 / 50)) = 200"
  "percent_hundredths Binary64 (float_round 24 (19 / 20)) = 9500"
  by code_simp+



subsection \<open>Rounding\<close>

text \<open>
  Rounding to the nearest integer errs by at most one half, and rounding to \<open>p\<close>
  significant bits by at most the fraction \<open>2\<^sup>-\<^sup>p\<close> of the number.
\<close>

lemma round_half_even_error: "\<bar>of_int (round_half_even y) - y\<bar> \<le> 1 / 2"
proof -
  define d where "d = y - of_int \<lfloor>y\<rfloor>"
  have d: "0 \<le> d" "d < 1" unfolding d_def by linarith+
  have y: "y = of_int \<lfloor>y\<rfloor> + d" unfolding d_def by simp
  have r: "round_half_even y =
      (if d < 1 / 2 then \<lfloor>y\<rfloor> else if 1 / 2 < d then \<lfloor>y\<rfloor> + 1
       else if even \<lfloor>y\<rfloor> then \<lfloor>y\<rfloor> else \<lfloor>y\<rfloor> + 1)"
    unfolding round_half_even_def d_def Let_def ..
  have "\<bar>of_int (round_half_even y) - (of_int \<lfloor>y\<rfloor> + d)\<bar> \<le> 1 / 2"
    unfolding r using d by (auto simp: abs_le_iff)
  with y show ?thesis by simp
qed

lemma round_half_even_nonneg: "0 \<le> y \<Longrightarrow> 0 \<le> round_half_even y"
  unfolding round_half_even_def Let_def by (auto simp: zero_le_floor)

lemma pow2_powi: "pow2 e = 2 powi e"
  by (simp add: pow2_def power_int_def power_one_over inverse_eq_divide)

lemma pow2_pos: "0 < pow2 e"
  by (simp add: pow2_powi)

lemma pow2_shift: "pow2 (e - int p + 1) / 2 = pow2 e / 2 ^ p"
proof -
  have "pow2 (e - int p + 1) = 2 powi (e - int p) * 2"
    unfolding pow2_powi by (simp add: power_int_add_1)
  moreover have "(2::rat) powi (e - int p) = 2 powi e / 2 ^ p"
    by (simp add: power_int_diff)
  ultimately show ?thesis by (simp add: pow2_powi)
qed

lemma floor_log2_le:
  assumes "0 < x"
  shows "pow2 (floor_log2 x) \<le> x"
proof -
  obtain a b where q: "quotient_of x = (a, b)" by (cases "quotient_of x")
  then have b: "0 < b" by (rule quotient_of_denom_pos)
  have x: "x = of_int a / of_int b" using q by (rule quotient_of_div)
  with assms b have a: "0 < a" by (simp add: zero_less_divide_iff)
  define k where "k = bitlen a - bitlen b"
  have fl: "floor_log2 x = (if pow2 k \<le> x then k else k - 1)"
    unfolding floor_log2_def q k_def by (simp add: Let_def)
  show ?thesis
  proof (cases "pow2 k \<le> x")
    case True
    with fl show ?thesis by simp
  next
    case False
    have la: "(2::int) ^ nat (bitlen a - 1) \<le> a" using bitlen_bounds [OF a] by simp
    have lb: "b < 2 ^ nat (bitlen b)" using bitlen_bounds [OF b] by simp
    have pa: "0 \<le> bitlen a - 1" using a bitlen_nonneg [of a] bitlen_eq_zero_iff [of a] by linarith
    have pb: "0 \<le> bitlen b" by (rule bitlen_nonneg)
    have ra: "(2::rat) powi (bitlen a - 1) \<le> of_int a"
    proof -
      have "(2::rat) powi (bitlen a - 1) = 2 ^ nat (bitlen a - 1)"
        using pa by (simp add: power_int_def)
      also have "\<dots> = of_int (2 ^ nat (bitlen a - 1))" by simp
      also have "\<dots> \<le> of_int a" using la by (simp only: of_int_le_iff)
      finally show ?thesis .
    qed
    have rb: "of_int b \<le> (2::rat) powi (bitlen b)"
    proof -
      have "of_int b \<le> (of_int (2 ^ nat (bitlen b)) :: rat)"
        using lb by (simp only: of_int_le_iff less_imp_le)
      also have "\<dots> = 2 powi (bitlen b)" using pb by (simp add: power_int_def)
      finally show ?thesis .
    qed
    have "pow2 (k - 1) = 2 powi (bitlen a - 1) / 2 powi (bitlen b)"
      unfolding pow2_powi k_def
      by (simp add: power_int_diff [symmetric] algebra_simps)
    also have "\<dots> \<le> of_int a / 2 powi (bitlen b)"
      using ra by (simp add: divide_right_mono)
    also have "\<dots> \<le> of_int a / of_int b"
      using rb a b by (simp add: frac_le)
    finally show ?thesis using False fl x by simp
  qed
qed

lemma floor_log2_gt:
  assumes "0 < x"
  shows "x < pow2 (floor_log2 x + 1)"
proof -
  obtain a b where q: "quotient_of x = (a, b)" by (cases "quotient_of x")
  then have b: "0 < b" by (rule quotient_of_denom_pos)
  have x: "x = of_int a / of_int b" using q by (rule quotient_of_div)
  with assms b have a: "0 < a" by (simp add: zero_less_divide_iff)
  define k where "k = bitlen a - bitlen b"
  have fl: "floor_log2 x = (if pow2 k \<le> x then k else k - 1)"
    unfolding floor_log2_def q k_def by (simp add: Let_def)
  show ?thesis
  proof (cases "pow2 k \<le> x")
    case False
    with fl show ?thesis by simp
  next
    case True
    have la: "a < 2 ^ nat (bitlen a)" using bitlen_bounds [OF a] by simp
    have lb: "(2::int) ^ nat (bitlen b - 1) \<le> b" using bitlen_bounds [OF b] by simp
    have pa: "0 \<le> bitlen a" by (rule bitlen_nonneg)
    have pb: "0 \<le> bitlen b - 1"
      using b bitlen_nonneg [of b] bitlen_eq_zero_iff [of b] by linarith
    have ra: "of_int a < (2::rat) powi (bitlen a)"
    proof -
      have "of_int a < (of_int (2 ^ nat (bitlen a)) :: rat)"
        using la by (simp only: of_int_less_iff)
      also have "\<dots> = 2 powi (bitlen a)" using pa by (simp add: power_int_def)
      finally show ?thesis .
    qed
    have rb: "(2::rat) powi (bitlen b - 1) \<le> of_int b"
    proof -
      have "(2::rat) powi (bitlen b - 1) = 2 ^ nat (bitlen b - 1)"
        using pb by (simp add: power_int_def)
      also have "\<dots> = of_int (2 ^ nat (bitlen b - 1))" by simp
      also have "\<dots> \<le> of_int b" using lb by (simp only: of_int_le_iff)
      finally show ?thesis .
    qed
    have "of_int a / of_int b < (2::rat) powi (bitlen a) / of_int b"
      using ra b by (simp add: divide_strict_right_mono)
    also have "\<dots> \<le> 2 powi (bitlen a) / 2 powi (bitlen b - 1)"
    proof (rule divide_left_mono [OF rb])
      show "0 \<le> (2::rat) powi bitlen a" by simp
      have "0 < (2::rat) powi (bitlen b - 1)" by simp
      moreover have "(0::rat) < of_int b" using b by simp
      ultimately show "0 < (of_int b :: rat) * 2 powi (bitlen b - 1)" by (rule mult_pos_pos [rotated])
    qed
    also have "\<dots> = pow2 (k + 1)"
      unfolding pow2_powi k_def by (simp add: power_int_diff [symmetric] algebra_simps)
    finally show ?thesis using True fl x by simp
  qed
qed

lemma float_round_error: "\<bar>float_round p x - x\<bar> \<le> \<bar>x\<bar> / 2 ^ p"
proof (cases "x = 0")
  case True
  then show ?thesis by (simp add: float_round_def)
next
  case False
  define e where "e = floor_log2 \<bar>x\<bar>"
  define ulp where "ulp = pow2 (e - int p + 1)"
  have u: "0 < ulp" unfolding ulp_def by (rule pow2_pos)
  have fr: "float_round p x = of_int (round_half_even (x / ulp)) * ulp"
    using False unfolding float_round_def ulp_def e_def by (simp add: Let_def)
  have "float_round p x - x = (of_int (round_half_even (x / ulp)) - x / ulp) * ulp"
    using u unfolding fr by (simp add: algebra_simps)
  then have "\<bar>float_round p x - x\<bar> = \<bar>of_int (round_half_even (x / ulp)) - x / ulp\<bar> * ulp"
    using u by (simp add: abs_mult)
  also have "\<dots> \<le> (1 / 2) * ulp"
    using round_half_even_error [of "x / ulp"] u by (intro mult_right_mono) simp_all
  also have "\<dots> = pow2 e / 2 ^ p" unfolding ulp_def using pow2_shift [of e p] by simp
  also have "\<dots> \<le> \<bar>x\<bar> / 2 ^ p"
    using floor_log2_le [of "\<bar>x\<bar>"] False unfolding e_def by (simp add: divide_right_mono)
  finally show ?thesis .
qed

lemma float_round_nonneg:
  assumes "0 \<le> x"
  shows "0 \<le> float_round p x"
proof (cases "x = 0")
  case True
  then show ?thesis by (simp add: float_round_def)
next
  case False
  define ulp where "ulp = pow2 (floor_log2 \<bar>x\<bar> - int p + 1)"
  have u: "0 < ulp" unfolding ulp_def by (rule pow2_pos)
  have fr: "float_round p x = of_int (round_half_even (x / ulp)) * ulp"
    using False unfolding float_round_def ulp_def by (simp add: Let_def)
  have "0 \<le> round_half_even (x / ulp)" using assms u by (intro round_half_even_nonneg) simp
  then show ?thesis unfolding fr using u by simp
qed

text \<open>Ties go to the even neighbour; binary32 has 24 significant bits.\<close>

lemma float_round_examples:
  "float_round 24 16777217 = 16777216"
  "float_round 24 16777219 = 16777220"
  "float_round 24 (1 / 100) = 5368709 / 536870912"
  "float_round 24 (3 / 4) = 3 / 4"
  by code_simp+

lemma format_2f_examples:
  "format_2f (1 / 8) = ''0.12''"
  "format_2f (3 / 8) = ''0.38''"
  "format_2f (- 1 / 1000) = ''-0.00''"
  by code_simp+

subsection \<open>The sum of the percentages\<close>

text \<open>
  Each shown percentage is within half a hundredth of the floating-point product, which is
  within \<open>100 v / 2\<^sup>p\<close> of \<open>100 v\<close>. For four values of sum 1 the shown numbers, in
  hundredths, sum to an integer less than 3 away from 10000.
\<close>

lemma mantissa_bits_large: "(10000::rat) / 2 ^ mantissa_bits f < 1"
  by (cases f) simp_all

lemma float_mul_nonneg: "0 \<le> v \<Longrightarrow> 0 \<le> float_mul f v 100"
  unfolding float_mul_def by (rule float_round_nonneg) simp

lemma percent_hundredths_error:
  assumes "0 \<le> v"
  shows "\<bar>of_nat (percent_hundredths f v) - 10000 * v\<bar>
           \<le> 1 / 2 + 10000 * v / 2 ^ mantissa_bits f"
proof -
  define x where "x = float_mul f v 100"
  define r where "r = round_half_even (x * 100)"
  have x0: "0 \<le> x" unfolding x_def using assms by (rule float_mul_nonneg)
  then have r0: "0 \<le> r" unfolding r_def by (intro round_half_even_nonneg) simp
  have h: "percent_hundredths f v = nat r"
    unfolding percent_hundredths_def hundredths_def x_def [symmetric] r_def using x0 by simp
  have 1: "\<bar>of_int r - x * 100\<bar> \<le> 1 / 2"
    unfolding r_def by (rule round_half_even_error)
  have "\<bar>x - v * 100\<bar> \<le> \<bar>v * 100\<bar> / 2 ^ mantissa_bits f"
    unfolding x_def float_mul_def by (rule float_round_error)
  then have 2: "\<bar>x - v * 100\<bar> \<le> 100 * v / 2 ^ mantissa_bits f"
    using assms by (simp add: abs_mult mult.commute)
  define A where "A = of_int r - x * 100"
  define B where "B = x - v * 100"
  have "of_int r - 10000 * v = A + 100 * B" unfolding A_def B_def by simp
  moreover have "\<bar>A + 100 * B\<bar> \<le> \<bar>A\<bar> + \<bar>100 * B\<bar>" by (rule abs_triangle_ineq)
  moreover have "\<bar>100 * B\<bar> = 100 * \<bar>B\<bar>" by (simp add: abs_mult)
  ultimately have "\<bar>of_int r - 10000 * v\<bar> \<le> \<bar>of_int r - x * 100\<bar> + 100 * \<bar>x - v * 100\<bar>"
    unfolding A_def B_def by simp
  also have "\<dots> \<le> 1 / 2 + 100 * (100 * v / 2 ^ mantissa_bits f)"
    using 1 2 by (intro add_mono mult_left_mono) simp_all
  finally have "\<bar>of_int r - 10000 * v\<bar> \<le> 1 / 2 + 10000 * v / 2 ^ mantissa_bits f" by simp
  moreover have "(of_nat (nat r) :: rat) = of_int r" using r0 by simp
  ultimately show ?thesis unfolding h by simp
qed

lemma four_percentages:
  assumes nn: "0 \<le> a" "0 \<le> b" "0 \<le> c" "0 \<le> d" and s: "a + b + c + d = (1::rat)"
  shows "\<bar>int (percent_hundredths f a) + int (percent_hundredths f b) +
          int (percent_hundredths f c) + int (percent_hundredths f d) - 10000\<bar> \<le> 2"
proof -
  define H where "H v = (of_nat (percent_hundredths f v) :: rat)" for v
  define u where "u = (10000::rat) / 2 ^ mantissa_bits f"
  have u: "u < 1" unfolding u_def by (rule mantissa_bits_large)
  have e: "\<bar>H v - 10000 * v\<bar> \<le> 1 / 2 + v * u" if "0 \<le> v" for v
    using percent_hundredths_error [OF that, of f] unfolding H_def u_def by (simp add: mult.commute)
  have "H a + H b + H c + H d - 10000 =
          (H a - 10000 * a) + (H b - 10000 * b) + (H c - 10000 * c) + (H d - 10000 * d)"
    using s by (simp add: algebra_simps)
  then have "\<bar>H a + H b + H c + H d - 10000\<bar> \<le>
          \<bar>H a - 10000 * a\<bar> + \<bar>H b - 10000 * b\<bar> + \<bar>H c - 10000 * c\<bar> + \<bar>H d - 10000 * d\<bar>"
    by linarith
  also have "\<dots> \<le> (1 / 2 + a * u) + (1 / 2 + b * u) + (1 / 2 + c * u) + (1 / 2 + d * u)"
    using e [OF nn(1)] e [OF nn(2)] e [OF nn(3)] e [OF nn(4)] by linarith
  also have "\<dots> = 2 + (a + b + c + d) * u" by (simp add: algebra_simps)
  also have "\<dots> < 3" using s u by simp
  finally have lt: "\<bar>H a + H b + H c + H d - 10000\<bar> < 3" .
  define n where "n = int (percent_hundredths f a) + int (percent_hundredths f b) +
          int (percent_hundredths f c) + int (percent_hundredths f d) - 10000"
  have "(of_int n :: rat) = H a + H b + H c + H d - 10000"
    unfolding n_def H_def by simp
  with lt have "\<bar>of_int n :: rat\<bar> < of_int 3" by simp
  then have "\<bar>n\<bar> < 3" by (simp only: of_int_abs [symmetric] of_int_less_iff)
  then show ?thesis unfolding n_def by simp
qed

lemma percentages_sum_bound:
  assumes "length probs = 4" and "\<forall>v \<in> set probs. 0 \<le> v" and "sum_list probs = 1"
  shows "\<bar>(\<Sum>v\<leftarrow>probs. of_nat (percent_hundredths f v) / 100) - 100\<bar> \<le> (2 / 100 :: rat)"
proof -
  from assms(1) obtain a b c d where p: "probs = [a, b, c, d]"
    by (auto simp: length_Suc_conv eval_nat_numeral)
  from assms(2,3) have nn: "0 \<le> a" "0 \<le> b" "0 \<le> c" "0 \<le> d" and s: "a + b + c + d = 1"
    unfolding p by (simp_all add: add.assoc)
  define n where "n = int (percent_hundredths f a) + int (percent_hundredths f b) +
          int (percent_hundredths f c) + int (percent_hundredths f d) - 10000"
  have "\<bar>n\<bar> \<le> 2" unfolding n_def using four_percentages [OF nn s] .
  then have "(of_int \<bar>n\<bar> :: rat) \<le> of_int 2" by (simp only: of_int_le_iff)
  then have "\<bar>of_int n :: rat\<bar> \<le> 2" by simp
  then have b: "\<bar>of_int n :: rat\<bar> / 100 \<le> 2 / 100" by (rule divide_right_mono) simp
  define S where "S = (\<Sum>v\<leftarrow>probs. (of_nat (percent_hundredths f v) :: rat) / 100)"
  have eq: "S - 100 = (of_int n :: rat) / 100"
    unfolding S_def p n_def by (simp add: field_simps)
  have "\<bar>S - 100\<bar> = \<bar>(of_int n :: rat) / 100\<bar>" unfolding eq ..
  also have "\<dots> = \<bar>of_int n :: rat\<bar> / 100" by simp
  finally have "\<bar>S - 100\<bar> \<le> 2 / 100" using b by (simp only:)
  then show ?thesis unfolding S_def .
qed


lemma format_percent_nonneg:
  assumes "0 \<le> v"
  shows "format_percent f v =
           str_nat (percent_hundredths f v div 100) @ ''.'' @
           [digit_char (percent_hundredths f v mod 100 div 10),
            digit_char (percent_hundredths f v mod 10)] @ ''%''"
proof -
  have "\<not> float_mul f v 100 < 0" using float_mul_nonneg [OF assms, of f] by simp
  then show ?thesis
    by (simp add: format_percent_def format_2f_def percent_hundredths_def Let_def)
qed

lemma skewed_hundredths:
  "percent_hundredths Binary32 (1 / 1024) = 10"
  "percent_hundredths Binary32 (1021 / 1024) = 9971"
  by code_simp+

text \<open>
  C9. For a vector of four probabilities (none negative) whose sum is 1, the four
  percentages of the response, each the product with 100 rounded to two decimals, sum to a
  number within 0.02 of 100; \<open>percent_hundredths\<close> is the number that the formatted string
  shows, in hundredths. This holds in binary32 and in binary64.
\<close>

theorem percentages_sum_to_100:
  assumes "length probs = 4" and "\<forall>v \<in> set probs. 0 \<le> v" and "sum_list probs = 1"
  shows "\<bar>(\<Sum>v\<leftarrow>probs. of_nat (percent_hundredths f v) / 100) - 100\<bar> \<le> (2 / 100 :: rat) \<and>
         (\<forall>v \<in> set probs.
            format_percent f v =
              str_nat (percent_hundredths f v div 100) @ ''.'' @
              [digit_char (percent_hundredths f v mod 100 div 10),
               digit_char (percent_hundredths f v mod 10)] @ ''%'')"
  using percentages_sum_bound [OF assms] assms(2) format_percent_nonneg by blast

theorem percentages_sum_to_100_witness:
  "length [1 / 1024, 1 / 1024, 1 / 1024, 1021 / 1024 :: rat] = 4 \<and>
   (0 :: rat) \<le> 1 / 1024 \<and> (0 :: rat) \<le> 1021 / 1024 \<and>
   sum_list [1 / 1024, 1 / 1024, 1 / 1024, 1021 / 1024 :: rat] = 1 \<and>
   \<bar>(\<Sum>v\<leftarrow>[1 / 1024, 1 / 1024, 1 / 1024, 1021 / 1024].
        of_nat (percent_hundredths Binary32 v) / 100) - 100\<bar> \<le> (2 / 100 :: rat) \<and>
   format_percent Binary32 (1 / 1024) = ''0.10%'' \<and>
   format_percent Binary32 (1021 / 1024) = ''99.71%''"
proof -
  let ?ps = "[1 / 1024, 1 / 1024, 1 / 1024, 1021 / 1024 :: rat]"
  have l: "length ?ps = 4" by simp
  have n: "\<forall>v \<in> set ?ps. 0 \<le> v" by simp
  have s: "sum_list ?ps = 1" by simp
  note t = percentages_sum_to_100 [OF l n s, of Binary32]
  have b: "\<bar>(\<Sum>v\<leftarrow>?ps. of_nat (percent_hundredths Binary32 v) / 100) - 100\<bar> \<le> (2 / 100 :: rat)"
    using t by (rule conjunct1)
  have f1: "format_percent Binary32 (1 / 1024) = ''0.10%''"
    using t by (simp add: skewed_hundredths str_nat.simps digit_char_def)
  have f2: "format_percent Binary32 (1021 / 1024) = ''99.71%''"
    using t by (simp add: skewed_hundredths str_nat.simps digit_char_def)
  have n': "(0 :: rat) \<le> 1 / 1024" "(0 :: rat) \<le> 1021 / 1024" by simp_all
  from l n' s b f1 f2 show ?thesis by (intro conjI)
qed

end
